theory Spec2Isabelle
  imports Main
begin

section \<open>JavaScript strings and arrays\<close>

text \<open>
  The engine (\<^verbatim>\<open>src/controllers/nlpController.ts\<close>, class \<^verbatim>\<open>NlpController\<close>, the variant
  with two taggers) works on character offsets of strings and on positions of arrays.
  A string is a \<^typ>\<open>string\<close>; an offset is an \<^typ>\<open>int\<close>, because \<^verbatim>\<open>indexOf\<close>
  answers \<^verbatim>\<open>-1\<close> for "not found" and the code computes with that value.  Reading a
  string or an array outside its bounds yields \<^verbatim>\<open>undefined\<close>, here \<^term>\<open>None\<close>.
  Case mapping is modelled on the ASCII letters only: \<open>toLowerCase\<close> and
  \<open>toUpperCase\<close> below map \<^verbatim>\<open>A\<close>-\<^verbatim>\<open>Z\<close> and \<^verbatim>\<open>a\<close>-\<^verbatim>\<open>z\<close> and leave every other
  character alone, where JavaScript maps every cased letter of Unicode and may change
  the length of the string.  The model therefore speaks of sentences whose cased
  letters are ASCII; the general properties below never unfold the two functions, and
  every example sentence is ASCII.
\<close>

definition upperLetters :: string where
  "upperLetters = ''ABCDEFGHIJKLMNOPQRSTUVWXYZ''"

definition lowerLetters :: string where
  "lowerLetters = ''abcdefghijklmnopqrstuvwxyz''"

definition toLowerChar :: "char \<Rightarrow> char" where
  "toLowerChar c = (case map_of (zip upperLetters lowerLetters) c of Some l \<Rightarrow> l | None \<Rightarrow> c)"

definition toUpperChar :: "char \<Rightarrow> char" where
  "toUpperChar c = (case map_of (zip lowerLetters upperLetters) c of Some u \<Rightarrow> u | None \<Rightarrow> c)"

definition toLowerCase :: "string \<Rightarrow> string" where
  "toLowerCase s = map toLowerChar s"

definition toUpperCase :: "string \<Rightarrow> string" where
  "toUpperCase s = map toUpperChar s"

text \<open>\<^verbatim>\<open>text.startsWith(s)\<close>, the test behind \<^verbatim>\<open>text.indexOf(s)\<close>.\<close>

fun startsWith :: "string \<Rightarrow> string \<Rightarrow> bool" where
  "startsWith cs [] = True"
| "startsWith [] (d # ds) = False"
| "startsWith (c # cs) (d # ds) = (c = d \<and> startsWith cs ds)"

text \<open>
  \<^verbatim>\<open>text.indexOf(s)\<close>: the offset of the first occurrence of \<^verbatim>\<open>s\<close> in \<^verbatim>\<open>text\<close>,
  \<^verbatim>\<open>-1\<close> when there is none (the empty string occurs at every offset, the end included).
\<close>

fun indexOfFrom :: "int \<Rightarrow> string \<Rightarrow> string \<Rightarrow> int" where
  "indexOfFrom i [] s = (if s = [] then i else - 1)"
| "indexOfFrom i (c # cs) s = (if startsWith (c # cs) s then i else indexOfFrom (i + 1) cs s)"

definition indexOf :: "string \<Rightarrow> string \<Rightarrow> int" where
  "indexOf text s = indexOfFrom 0 text s"

text \<open>\<^verbatim>\<open>array.indexOf(x)\<close>: the first position holding \<^verbatim>\<open>x\<close>, or \<^verbatim>\<open>-1\<close>.\<close>

fun arrayIndexOfFrom :: "int \<Rightarrow> 'a list \<Rightarrow> 'a \<Rightarrow> int" where
  "arrayIndexOfFrom i [] x = - 1"
| "arrayIndexOfFrom i (y # ys) x = (if y = x then i else arrayIndexOfFrom (i + 1) ys x)"

definition arrayIndexOf :: "'a list \<Rightarrow> 'a \<Rightarrow> int" where
  "arrayIndexOf xs x = arrayIndexOfFrom 0 xs x"

text \<open>\<^verbatim>\<open>xs[i]\<close> for an array or a string: \<^verbatim>\<open>undefined\<close> outside the bounds.\<close>

definition at :: "'a list \<Rightarrow> int \<Rightarrow> 'a option" where
  "at xs i = (if 0 \<le> i \<and> i < int (length xs) then Some (xs ! nat i) else None)"

text \<open>\<^verbatim>\<open>s.split(" ")\<close> with the separator as a parameter: never an empty array.\<close>

fun split :: "char \<Rightarrow> string \<Rightarrow> string list" where
  "split sep [] = [[]]"
| "split sep (c # cs) =
     (if c = sep then [] # split sep cs
      else (case split sep cs of [] \<Rightarrow> [[c]] | w # ws \<Rightarrow> (c # w) # ws))"

text \<open>A value inside a template literal: \<^verbatim>\<open>undefined\<close> prints as the word.\<close>

definition template :: "string option \<Rightarrow> string" where
  "template v = (case v of None \<Rightarrow> ''undefined'' | Some s \<Rightarrow> s)"

text \<open>\<^verbatim>\<open>s.charAt(0).toUpperCase() + s.slice(1)\<close>.\<close>

definition capitalize :: "string \<Rightarrow> string" where
  "capitalize s = toUpperCase (take 1 s) @ drop 1 s"

section \<open>Data model\<close>

text \<open>
  A \<^verbatim>\<open>Detail\<close> is what the tagger reports for a custom entity, read by the engine as
  \<^verbatim>\<open>{value, type}\<close>.  The spans the engine builds itself are \<^verbatim>\<open>{value, index, type}\<close>;
  the selected proper name adds \<^verbatim>\<open>parsedValue\<close> and the selected intentional verb
  adds \<^verbatim>\<open>noun\<close>.  The fields carry the record's name as a prefix.
\<close>

record detail =
  detailValue :: string
  detailType :: string

record span =
  spanValue :: string
  spanIndex :: int
  spanType :: string

record properName = span +
  parsedValue :: string

record intentionalVerb = span +
  noun :: string

text \<open>The initial object of each search: \<^verbatim>\<open>{value: "", index: -1, type: ""}\<close>.\<close>

definition noSpan :: span where
  "noSpan = \<lparr>spanValue = '''', spanIndex = - 1, spanType = ''''\<rparr>"

section \<open>Event noun resolution\<close>

text \<open>
  \<^verbatim>\<open>findEventNoun(text, eventNouns, selectedVerbIndex)\<close>, lines 251--269.  The loop state
  is the selected span and \<^verbatim>\<open>nounDistance\<close>, which starts at 1000; the third argument
  is the offset of the date anchor at the only call site (line 120).
\<close>

definition eventNounStep :: "string \<Rightarrow> int \<Rightarrow> span \<times> int \<Rightarrow> detail \<Rightarrow> span \<times> int" where
  "eventNounStep text selectedVerbIndex st n =
     (let nIndex = indexOf text (detailValue n);
          distanceFromVerb = \<bar>nIndex - selectedVerbIndex\<bar>
      in if distanceFromVerb < snd st
         then (\<lparr>spanValue = detailValue n, spanIndex = nIndex, spanType = detailType n\<rparr>,
               distanceFromVerb)
         else st)"

definition findEventNoun :: "string \<Rightarrow> detail list \<Rightarrow> int \<Rightarrow> span" where
  "findEventNoun text eventNouns selectedVerbIndex =
     fst (foldl (eventNounStep text selectedVerbIndex) (noSpan, 1000) eventNouns)"

section \<open>The tagger's output and the candidate filters\<close>

text \<open>
  The tagger is a black box.  \<^verbatim>\<open>doc.tokens()\<close> is the token sequence: \<^verbatim>\<open>tokens.out()\<close>
  lists the values and \<^verbatim>\<open>tokens.out(its.pos)\<close> the part-of-speech tags, position by
  position, so a token is a pair of its value and its tag.
  \<^verbatim>\<open>customEntities.out(its.detail)\<close> is a list of details in the tagger's order.
\<close>

type_synonym tokens = "(string \<times> string) list"

definition filterDates :: "detail list \<Rightarrow> detail list" where
  "filterDates customEntities =
     filter (\<lambda>p. detailType p = ''date'' \<or> detailType p = ''ordinalDate'' \<or>
                 detailType p = ''ordinalDateReverse'' \<or> detailType p = ''timeRange'' \<or>
                 detailType p = ''exactTime'' \<or> detailType p = ''duration'') customEntities"

definition filterProperNames :: "detail list \<Rightarrow> detail list" where
  "filterProperNames customEntities = filter (\<lambda>p. detailType p = ''properName'') customEntities"

definition filterEventNoun :: "detail list \<Rightarrow> detail list" where
  "filterEventNoun customEntities = filter (\<lambda>p. detailType p = ''eventNoun'') customEntities"

definition filterPurposes :: "detail list \<Rightarrow> detail list" where
  "filterPurposes customEntities = filter (\<lambda>p. detailType p = ''purpose'') customEntities"

section \<open>The intentional-verb fallback\<close>

text \<open>
  \<^verbatim>\<open>findIntentionalVerb(customEntities, tokens, text, selectedDateIndex)\<close>, lines 222--249.
  The loop is the one of \<^verbatim>\<open>findEventNoun\<close>, over the details of type
  \<^verbatim>\<open>intentionalVerb\<close>.  The verb of the derived phrase is the token at
  \<^verbatim>\<open>pos.indexOf("VERB")\<close>.
\<close>

definition intentionalVerbStep :: "string \<Rightarrow> int \<Rightarrow> span \<times> int \<Rightarrow> detail \<Rightarrow> span \<times> int" where
  "intentionalVerbStep text selectedDateIndex st v =
     (let vIndex = indexOf text (detailValue v);
          distanceFromDate = \<bar>vIndex - selectedDateIndex\<bar>
      in if distanceFromDate < snd st
         then (\<lparr>spanValue = detailValue v, spanIndex = vIndex, spanType = detailType v\<rparr>,
               distanceFromDate)
         else st)"

definition findIntentionalVerb :: "detail list \<Rightarrow> tokens \<Rightarrow> string \<Rightarrow> int \<Rightarrow> intentionalVerb" where
  "findIntentionalVerb customEntities tokens text selectedDateIndex =
     (let intentionalVerbs = filter (\<lambda>d. detailType d = ''intentionalVerb'') customEntities;
          pos = map snd tokens;
          tokenValue = map fst tokens
      in if intentionalVerbs = []
         then \<lparr>spanValue = [], spanIndex = - 1, spanType = [], noun = []\<rparr>
         else
           let selected = fst (foldl (intentionalVerbStep text selectedDateIndex) (noSpan, 1000)
                                 intentionalVerbs);
               verbIndex = arrayIndexOf pos ''VERB'';
               verb = at tokenValue verbIndex
           in \<lparr>spanValue = spanValue selected, spanIndex = spanIndex selected,
               spanType = spanType selected,
               noun = template verb @ '' '' @ last (split (CHR '' '') (spanValue selected))\<rparr>)"

text \<open>
  Lines 119--131 of \<^verbatim>\<open>process\<close>: the event noun found directly, or the phrase derived
  from the intentional verb; \<^term>\<open>None\<close> where \<^verbatim>\<open>process\<close> returns \<^verbatim>\<open>null\<close>.
\<close>

definition selectEventNoun :: "detail list \<Rightarrow> tokens \<Rightarrow> string \<Rightarrow> detail list \<Rightarrow> int \<Rightarrow> span option" where
  "selectEventNoun mainCustomEntities tokens caseInsensitiveText eventNouns selectedDateIndex =
     (let selectedEventNoun = findEventNoun caseInsensitiveText eventNouns selectedDateIndex
      in if spanIndex selectedEventNoun = - 1
         then
           let selectedIntentionalVerb =
                 findIntentionalVerb mainCustomEntities tokens caseInsensitiveText selectedDateIndex
           in if spanIndex selectedIntentionalVerb = - 1 then None
              else Some \<lparr>spanValue = noun selectedIntentionalVerb,
                         spanIndex = indexOf caseInsensitiveText (noun selectedIntentionalVerb),
                         spanType = ''eventNoun''\<rparr>
         else Some selectedEventNoun)"

section \<open>Person-name resolution\<close>

text \<open>
  \<^verbatim>\<open>findProperName(text, properNames, selectedEventNoun)\<close>, lines 316--351.
  \<^verbatim>\<open>hasAdp\<close> and \<^verbatim>\<open>adp\<close> are declared outside the loop, so they are part of the loop
  state (\<open>loopHasAdp\<close>, \<open>loopAdp\<close>) with the selected name (\<open>loopSelected\<close>) and
  \<^verbatim>\<open>properNameDistance\<close> (\<open>loopDistance\<close>).  \<^verbatim>\<open>adp.length\<close> with
  \<^verbatim>\<open>adp\<close> undefined throws a \<^verbatim>\<open>TypeError\<close>, which ends \<^verbatim>\<open>process\<close>.
  \<^verbatim>\<open>Misc.isLowerCase\<close> is not part of the sources at hand: it is a parameter, applied to
  the character read from the text (\<^term>\<open>None\<close> for \<^verbatim>\<open>undefined\<close>).
\<close>

datatype error = TypeError | ConfigurationFailure

record properNameLoop =
  loopSelected :: span
  loopDistance :: int
  loopHasAdp :: bool
  loopAdp :: "string option"

definition properNameStep ::
  "(char option \<Rightarrow> bool) \<Rightarrow> string \<Rightarrow> span \<Rightarrow> properNameLoop \<Rightarrow> detail \<Rightarrow> error + properNameLoop" where
  "properNameStep isLowerCase text selectedEventNoun st properName =
     (let pIndex = indexOf (toLowerCase text) (detailValue properName);
          splitValue = split (CHR '' '') (detailValue properName);
          adp = (if length splitValue = 1 then None else Some (hd splitValue));
          hasAdp = (loopHasAdp st \<or> adp \<noteq> None);
          st' = st\<lparr>loopHasAdp := hasAdp, loopAdp := adp\<rparr>
      in case (if hasAdp
               then (case adp of None \<Rightarrow> Inl TypeError
                     | Some a \<Rightarrow> Inr (at text (pIndex + int (length a) + 1)))
               else Inr (at text pIndex)) of
           Inl e \<Rightarrow> Inl e
         | Inr caseSensitiveFirstChar \<Rightarrow>
             if isLowerCase caseSensitiveFirstChar then Inr st'
             else
               let distanceFromEventNoun = \<bar>pIndex - spanIndex selectedEventNoun\<bar>
               in if distanceFromEventNoun < loopDistance st
                  then Inr (st'\<lparr>loopSelected :=
                                  \<lparr>spanValue = (if hasAdp then splitValue ! 1 else splitValue ! 0),
                                   spanIndex = pIndex, spanType = detailType properName\<rparr>,
                                loopDistance := distanceFromEventNoun\<rparr>)
                  else Inr st')"

fun forEachProperName ::
  "(properNameLoop \<Rightarrow> detail \<Rightarrow> error + properNameLoop) \<Rightarrow> properNameLoop \<Rightarrow> detail list \<Rightarrow>
   error + properNameLoop" where
  "forEachProperName step st [] = Inr st"
| "forEachProperName step st (p # ps) =
     (case step st p of Inl e \<Rightarrow> Inl e | Inr st' \<Rightarrow> forEachProperName step st' ps)"

definition findProperName ::
  "(char option \<Rightarrow> bool) \<Rightarrow> string \<Rightarrow> detail list \<Rightarrow> span \<Rightarrow> error + properName option" where
  "findProperName isLowerCase text properNames selectedEventNoun =
     (case forEachProperName (properNameStep isLowerCase text selectedEventNoun)
             \<lparr>loopSelected = noSpan, loopDistance = 1000, loopHasAdp = False, loopAdp = None\<rparr>
             properNames of
        Inl e \<Rightarrow> Inl e
      | Inr st \<Rightarrow>
          if spanIndex (loopSelected st) = - 1 then Inr None
          else
            let capitalized = capitalize (spanValue (loopSelected st))
            in Inr (Some \<lparr>spanValue = spanValue (loopSelected st),
                          spanIndex = spanIndex (loopSelected st),
                          spanType = spanType (loopSelected st),
                          parsedValue = (if \<not> loopHasAdp st then ''with '' @ capitalized
                                         else template (loopAdp st) @ '' '' @ capitalized)\<rparr>))"

section \<open>Title expansion: the adjacency walk\<close>

text \<open>
  \<^verbatim>\<open>findAdjAttributes(tokens, pos, selectedEventNoun, selectedProperName, eventNounIndex,
  selectedDateIndex, backward)\<close>, lines 279--314.  The parameter \<^verbatim>\<open>pos\<close> is the tag
  component of the tokens.  The first loop (lines 287--304) is \<open>adjWalk\<close>, with the loop
  variables \<^verbatim>\<open>adjOffset\<close>, \<^verbatim>\<open>cumulativeIndex\<close> and \<^verbatim>\<open>selectedAdjAttributes\<close> as
  arguments: \<^term>\<open>None\<close> is the \<^verbatim>\<open>return null\<close> inside the loop, \<^term>\<open>Some\<close> the
  list when the loop condition fails.  The second loop (lines 307--309) is \<open>popTrailing\<close>.
\<close>

definition walkTag :: "string \<Rightarrow> bool" where
  "walkTag t \<longleftrightarrow> t = ''NOUN'' \<or> t = ''ADJ'' \<or> t = ''ADP'' \<or> t = ''PRON''"

function adjWalk ::
  "tokens \<Rightarrow> properName option \<Rightarrow> int \<Rightarrow> int \<Rightarrow> int \<Rightarrow> bool \<Rightarrow> int \<Rightarrow> int \<Rightarrow> span list \<Rightarrow>
   span list option" where
  "adjWalk tokens selectedProperName eventNounTokenIndex eventNounIndex selectedDateIndex backward
     adjOffset cumulativeIndex selectedAdjAttributes =
     (case at tokens (eventNounTokenIndex + adjOffset) of
        None \<Rightarrow> Some selectedAdjAttributes
      | Some tok \<Rightarrow>
          if \<not> walkTag (snd tok) then Some selectedAdjAttributes
          else
            let adjWord = fst tok
            in if (case selectedProperName of None \<Rightarrow> False | Some p \<Rightarrow> adjWord = spanValue p)
               then None
               else
                 let selectedAdjAttributedIndex =
                       cumulativeIndex +
                       (if backward then eventNounIndex - (int (length adjWord) + 1)
                        else eventNounIndex + (int (length adjWord) + 1))
                 in if selectedAdjAttributedIndex = selectedDateIndex then None
                    else adjWalk tokens selectedProperName eventNounTokenIndex eventNounIndex
                           selectedDateIndex backward
                           (if backward then adjOffset - 1 else adjOffset + 1)
                           selectedAdjAttributedIndex
                           (selectedAdjAttributes @
                              [\<lparr>spanValue = adjWord, spanIndex = selectedAdjAttributedIndex,
                                spanType = snd tok\<rparr>]))"
  by pat_completeness auto
termination
  by (relation "measure (\<lambda>(tokens, pn, i, e, d, backward, adjOffset, cum, acc).
                   if backward then nat (i + adjOffset + 1)
                   else nat (int (length tokens) - (i + adjOffset)))")
     (auto simp: at_def split: if_splits)

function popTrailing :: "span list \<Rightarrow> span list" where
  "popTrailing selectedAdjAttributes =
     (if selectedAdjAttributes \<noteq> [] \<and>
         (spanType (last selectedAdjAttributes) = ''ADP'' \<or>
          spanType (last selectedAdjAttributes) = ''PRON'')
      then popTrailing (butlast selectedAdjAttributes)
      else selectedAdjAttributes)"
  by pat_completeness auto
termination
  by (relation "measure length") auto

definition findAdjAttributes ::
  "tokens \<Rightarrow> span \<Rightarrow> properName option \<Rightarrow> int \<Rightarrow> int \<Rightarrow> bool \<Rightarrow> span list option" where
  "findAdjAttributes tokens selectedEventNoun selectedProperName eventNounIndex selectedDateIndex
     backward =
     (let adjOffset = (if backward then - 1 else 1);
          stringTokens = map fst tokens;
          eventNounTokenIndex = arrayIndexOf stringTokens (spanValue selectedEventNoun)
      in if eventNounTokenIndex \<le> 0 then None
         else
           case adjWalk tokens selectedProperName eventNounTokenIndex eventNounIndex
                  selectedDateIndex backward adjOffset 0 [] of
             None \<Rightarrow> None
           | Some selectedAdjAttributes \<Rightarrow>
               let remaining = popTrailing selectedAdjAttributes
               in if remaining = [] then None else Some remaining)"

section \<open>Selection, date cleanup, parsing bridge and title\<close>

text \<open>
  \<^verbatim>\<open>getSelectionArray\<close>, lines 353--379.  The selected proper name enters the selection
  as the span it extends.  \<^verbatim>\<open>Array.prototype.sort\<close> with the comparator
  \<^verbatim>\<open>a.index - b.index\<close> is a stable sort on the index.
\<close>

definition getSelectionArray ::
  "string \<Rightarrow> detail list \<Rightarrow> span option \<Rightarrow> span list option \<Rightarrow> span list option \<Rightarrow>
   properName option \<Rightarrow> span list" where
  "getSelectionArray text dates selectedEventNoun backwardsAdjAttributes forwardAdjAttributes
     selectedProperName =
     (let selection =
            map (\<lambda>date. \<lparr>spanValue = detailValue date, spanIndex = indexOf text (detailValue date),
                          spanType = detailType date\<rparr>) dates
            @ (case selectedEventNoun of None \<Rightarrow> [] | Some n \<Rightarrow> [n])
            @ (case selectedProperName of None \<Rightarrow> [] | Some p \<Rightarrow> [span.truncate p])
            @ (case backwardsAdjAttributes of None \<Rightarrow> [] | Some b \<Rightarrow> b)
            @ (case forwardAdjAttributes of None \<Rightarrow> [] | Some f \<Rightarrow> f)
      in sort_key spanIndex selection)"

text \<open>\<^verbatim>\<open>cleanJunkDates(dates)\<close>, lines 383--395.\<close>

definition dateComponentPatterns :: "string list" where
  "dateComponentPatterns = [''date'', ''ordinalDate'', ''ordinalDateReverse'']"

definition timePatterns :: "string list" where
  "timePatterns = [''exactTime'', ''timeRange'']"

definition cleanJunkDates :: "detail list \<Rightarrow> detail list" where
  "cleanJunkDates dates =
     (let dateComponents = filter (\<lambda>d. arrayIndexOf dateComponentPatterns (detailType d) > - 1) dates;
          times = filter (\<lambda>t. arrayIndexOf timePatterns (detailType t) > - 1) dates;
          cleanDates =
            (if length dateComponents > 1
             then filter (\<lambda>d. arrayIndexOf timePatterns (detailType d) > - 1 \<or>
                               detailValue d = detailValue (hd dateComponents)) dates
             else dates)
      in if length times > 1
         then filter (\<lambda>d. arrayIndexOf dateComponentPatterns (detailType d) > - 1 \<or>
                           detailValue d = detailValue (hd times)) cleanDates
         else cleanDates)"

text \<open>
  \<^verbatim>\<open>parseDates(dates)\<close>, lines 397--401: the values joined by commas, every comma then
  replaced by a space, and the phrase handed to the external date parser, a parameter
  (\<^verbatim>\<open>smartDateParser.getDates(smartDateParser.parse(s))\<close>, \<^term>\<open>None\<close> for
  \<^verbatim>\<open>undefined\<close>).
\<close>

record dateRange =
  rangeStart :: int
  rangeEnd :: int

fun joinComma :: "string list \<Rightarrow> string" where
  "joinComma [] = []"
| "joinComma [s] = s"
| "joinComma (s # t # ss) = s @ '','' @ joinComma (t # ss)"

definition parseDates :: "(string \<Rightarrow> dateRange option) \<Rightarrow> detail list \<Rightarrow> dateRange option" where
  "parseDates parser dates =
     (let timeRelatedString =
            map (\<lambda>c. if c = CHR '','' then CHR '' '' else c) (joinComma (map detailValue dates))
      in parser timeRelatedString)"

text \<open>\<^verbatim>\<open>getEventTitle\<close>, lines 451--470.\<close>

definition getEventTitle ::
  "span list option \<Rightarrow> span list option \<Rightarrow> span \<Rightarrow> properName option \<Rightarrow> string" where
  "getEventTitle backwardsAdjAttributes forwardAdjAttributes selectedEventNoun selectedProperName =
     (case backwardsAdjAttributes of None \<Rightarrow> []
      | Some b \<Rightarrow> concat (map (\<lambda>a. spanValue a @ '' '') (rev b)))
     @ spanValue selectedEventNoun
     @ (case forwardAdjAttributes of None \<Rightarrow> []
        | Some f \<Rightarrow> '' '' @ concat (map (\<lambda>a. spanValue a @ '' '') f))
     @ (case selectedProperName of None \<Rightarrow> [] | Some p \<Rightarrow> '' '' @ parsedValue p)"

section \<open>The engine and \<^verbatim>\<open>process\<close>\<close>

text \<open>
  A sentence carries its text and the semantic fields \<^verbatim>\<open>process\<close> writes into it.
  Modelled from the spec: \<^verbatim>\<open>Sentence.injectSemanticFields\<close> (\<^verbatim>\<open>model/sentence.ts\<close> is not
  among the sources) records the start date, the end date and the event-noun text.
\<close>

record sentence =
  sentenceValue :: string
  startDate :: "int option"
  endDate :: "int option"
  eventNoun :: "string option"

definition injectSemanticFields :: "int \<Rightarrow> int \<Rightarrow> string \<Rightarrow> sentence \<Rightarrow> sentence" where
  "injectSemanticFields start finish nounText s =
     s\<lparr>startDate := Some start, endDate := Some finish, eventNoun := Some nounText\<rparr>"

text \<open>
  What \<^verbatim>\<open>process\<close> returns: \<^verbatim>\<open>null\<close>, \<^verbatim>\<open>undefined\<close> (the bare \<^verbatim>\<open>return\<close> of line 148)
  or \<^verbatim>\<open>{selection, event}\<close>.
\<close>

datatype 'e outcome = Null | Undefined | Result "span list" 'e

text \<open>
  The collaborators are parameters: the identity collaborator \<^verbatim>\<open>eventController\<close> works
  on a store of events \<open>'w\<close> that each of its calls may change; the two taggers, the date
  parser and \<^verbatim>\<open>Misc.isLowerCase\<close> are functions of their argument.  The engine keeps
  its \<^verbatim>\<open>_ready\<close> flag; the model adds the store and the list of the collaborator calls
  made so far, in order.
\<close>

datatype call = SyntacticCheck | Tagging | DateParsing | SemanticCheck | CreateNewEvent

record ('w, 'e) collaborators =
  syntacticCheck :: "sentence \<Rightarrow> 'w \<Rightarrow> 'e option \<times> 'w"
  semanticCheck :: "sentence \<Rightarrow> 'w \<Rightarrow> 'e option \<times> 'w"
  createNewEvent :: "sentence \<Rightarrow> 'w \<Rightarrow> 'e \<times> 'w"
  processed :: "'e \<Rightarrow> bool"
  mainCustomEntities :: "string \<Rightarrow> detail list"
  secondaryCustomEntities :: "string \<Rightarrow> detail list"
  docTokens :: "string \<Rightarrow> tokens"
  dateParser :: "string \<Rightarrow> dateRange option"
  isLowerCase :: "char option \<Rightarrow> bool"

record 'w engine =
  ready :: bool
  world :: 'w
  calls :: "call list"

text \<open>
  The constructor (lines 26--36) and \<^verbatim>\<open>init\<close> (lines 42--47).  The two pattern files
  are read and parsed by \<^verbatim>\<open>loadPatterns\<close>; \<^term>\<open>None\<close> stands for a file that is
  missing or not JSON, where \<^verbatim>\<open>readFileSync\<close> or \<^verbatim>\<open>JSON.parse\<close> throws before
  \<^verbatim>\<open>_ready\<close> is set.
\<close>

definition newEngine :: "'w \<Rightarrow> 'w engine" where
  "newEngine w = \<lparr>ready = False, world = w, calls = []\<rparr>"

definition init :: "string list option \<Rightarrow> string list option \<Rightarrow> 'w engine \<Rightarrow> error + 'w engine" where
  "init parsedNouns parsedProperNames eng =
     (case parsedNouns of None \<Rightarrow> Inl ConfigurationFailure
      | Some nouns \<Rightarrow>
          (case parsedProperNames of None \<Rightarrow> Inl ConfigurationFailure
           | Some names \<Rightarrow> Inr (eng\<lparr>ready := True\<rparr>)))"

text \<open>\<^verbatim>\<open>matchedEvent != null && matchedEvent.processed == true\<close>, lines 100 and 159.\<close>

definition isProcessed :: "('w, 'e) collaborators \<Rightarrow> 'e option \<Rightarrow> bool" where
  "isProcessed c matchedEvent = (case matchedEvent of None \<Rightarrow> False | Some e \<Rightarrow> processed c e)"

text \<open>
  Lines 150--173 of \<^verbatim>\<open>process\<close>: the semantic check when the syntactic check matched
  nothing, then reuse of the matched event or creation of a new one.
\<close>

definition identityProtocol ::
  "('w, 'e) collaborators \<Rightarrow> sentence \<Rightarrow> 'w engine \<Rightarrow> 'e option \<Rightarrow> span list \<Rightarrow> dateRange \<Rightarrow>
   span \<Rightarrow> span list option \<Rightarrow> span list option \<Rightarrow> properName option \<Rightarrow>
   'e outcome \<times> sentence \<times> 'w engine" where
  "identityProtocol c sentence0 eng matchedEvent0 selection dateRange selectedEventNoun
     backwardsAdjAttributes forwardAdjAttributes selectedProperName =
     (case (case matchedEvent0 of
              None \<Rightarrow>
                let injected = injectSemanticFields (rangeStart dateRange) (rangeEnd dateRange)
                                 (spanValue selectedEventNoun) sentence0;
                    eventTitle = getEventTitle backwardsAdjAttributes forwardAdjAttributes
                                   selectedEventNoun selectedProperName;
                    titled = injected\<lparr>eventNoun := Some eventTitle\<rparr>
                in (case semanticCheck c titled (world eng) of
                      (m, w) \<Rightarrow> (titled, m, eng\<lparr>world := w, calls := calls eng @ [SemanticCheck]\<rparr>))
            | Some e \<Rightarrow> (sentence0, matchedEvent0, eng)) of
        (sentence1, matchedEvent, eng1) \<Rightarrow>
          if isProcessed c matchedEvent then (Null, sentence1, eng1)
          else
            (case matchedEvent of
               None \<Rightarrow>
                 (case createNewEvent c sentence1 (world eng1) of
                    (event, w) \<Rightarrow>
                      (Result selection event, sentence1,
                       eng1\<lparr>world := w, calls := calls eng1 @ [CreateNewEvent]\<rparr>))
             | Some e \<Rightarrow> (Result selection e, sentence1, eng1)))"

text \<open>
  \<^verbatim>\<open>process(sentence)\<close>, lines 79--175.  The result is the returned value, the sentence
  as \<^verbatim>\<open>process\<close> leaves it and the engine afterwards, or the exception thrown.
\<close>

definition process ::
  "('w, 'e) collaborators \<Rightarrow> sentence \<Rightarrow> 'w engine \<Rightarrow> error + ('e outcome \<times> sentence \<times> 'w engine)" where
  "process c sentence0 eng =
     (if \<not> ready eng then Inr (Null, sentence0, eng)
      else
        case syntacticCheck c sentence0 (world eng) of
          (matchedEvent, w) \<Rightarrow>
            let eng1 = eng\<lparr>world := w, calls := calls eng @ [SyntacticCheck]\<rparr>
            in if isProcessed c matchedEvent then Inr (Null, sentence0, eng1)
               else
                 let caseInsensitiveText = toLowerCase (sentenceValue sentence0);
                     mainEntities = mainCustomEntities c caseInsensitiveText;
                     secondaryEntities = secondaryCustomEntities c caseInsensitiveText;
                     tokens = docTokens c caseInsensitiveText;
                     eng2 = eng1\<lparr>calls := calls eng1 @ [Tagging]\<rparr>;
                     dates = filterDates mainEntities;
                     properNames = filterProperNames secondaryEntities;
                     eventNouns = filterEventNoun mainEntities
                 in if dates = [] then Inr (Null, sentence0, eng2)
                    else
                      let selectedDateIndex = indexOf caseInsensitiveText (detailValue (hd dates))
                      in (case selectEventNoun mainEntities tokens caseInsensitiveText eventNouns
                                selectedDateIndex of
                           None \<Rightarrow> Inr (Null, sentence0, eng2)
                         | Some selectedEventNoun \<Rightarrow>
                             (case findProperName (isLowerCase c) (sentenceValue sentence0)
                                     properNames selectedEventNoun of
                                Inl e \<Rightarrow> Inl e
                              | Inr selectedProperName \<Rightarrow>
                                  let backwardsAdjAttributes =
                                        findAdjAttributes tokens selectedEventNoun selectedProperName
                                          (spanIndex selectedEventNoun) selectedDateIndex True;
                                      forwardAdjAttributes =
                                        findAdjAttributes tokens selectedEventNoun selectedProperName
                                          (spanIndex selectedEventNoun) selectedDateIndex False;
                                      cleanDates = cleanJunkDates dates;
                                      selection =
                                        getSelectionArray caseInsensitiveText cleanDates
                                          (Some selectedEventNoun) backwardsAdjAttributes
                                          forwardAdjAttributes selectedProperName;
                                      dateRange = parseDates (dateParser c) cleanDates;
                                      eng3 = eng2\<lparr>calls := calls eng2 @ [DateParsing]\<rparr>
                                  in (case dateRange of
                                        None \<Rightarrow> Inr (Undefined, sentence0, eng3)
                                      | Some r \<Rightarrow>
                                          Inr (identityProtocol c sentence0 eng3 matchedEvent
                                                 selection r selectedEventNoun
                                                 backwardsAdjAttributes forwardAdjAttributes
                                                 selectedProperName)))))"

section \<open>Reference notions for the properties\<close>

subsection \<open>Nearest candidates\<close>

text \<open>
  "Nearest, the first one met winning ties": position \<open>i\<close> of the list holds a
  candidate that no candidate beats and that every earlier candidate is strictly
  farther than.
\<close>

definition firstNearest :: "('a \<Rightarrow> int) \<Rightarrow> 'a list \<Rightarrow> nat \<Rightarrow> bool" where
  "firstNearest dist xs i \<longleftrightarrow>
     i < length xs \<and> (\<forall>j<length xs. dist (xs ! i) \<le> dist (xs ! j)) \<and>
     (\<forall>j<i. dist (xs ! i) < dist (xs ! j))"

text \<open>
  The distance of a candidate from an anchor, in characters, and the span the searches
  build for it.
\<close>

definition nounDistance :: "string \<Rightarrow> int \<Rightarrow> detail \<Rightarrow> int" where
  "nounDistance text anchor n = \<bar>indexOf text (detailValue n) - anchor\<bar>"

definition nounSpan :: "string \<Rightarrow> detail \<Rightarrow> span" where
  "nounSpan text n =
     \<lparr>spanValue = detailValue n, spanIndex = indexOf text (detailValue n), spanType = detailType n\<rparr>"

subsection \<open>The verb fallback\<close>

text \<open>
  The intentional-verb candidates, the token the fallback takes for the verb (the first
  token tagged \<^verbatim>\<open>VERB\<close> in the sentence, the word "undefined" when there is none), and
  the event noun it derives from a candidate.
\<close>

definition verbDetails :: "detail list \<Rightarrow> detail list" where
  "verbDetails customEntities = filter (\<lambda>d. detailType d = ''intentionalVerb'') customEntities"

definition firstVerbToken :: "tokens \<Rightarrow> string" where
  "firstVerbToken tokens = template (at (map fst tokens) (arrayIndexOf (map snd tokens) ''VERB''))"

definition derivedPhrase :: "tokens \<Rightarrow> detail \<Rightarrow> string" where
  "derivedPhrase tokens v = firstVerbToken tokens @ '' '' @ last (split (CHR '' '') (detailValue v))"

definition derivedNoun :: "tokens \<Rightarrow> string \<Rightarrow> detail \<Rightarrow> span" where
  "derivedNoun tokens text v =
     \<lparr>spanValue = derivedPhrase tokens v, spanIndex = indexOf text (derivedPhrase tokens v),
      spanType = ''eventNoun''\<rparr>"

subsection \<open>The person name\<close>

text \<open>
  Person-name resolution in the words of its description.  A candidate's adposition is
  its first word when it has more than one word, and its name is then its second word;
  its first letter is the character of the original text where the name starts, after
  the adposition and one space; the survivors are the candidates whose first letter is
  not lower-case; the rendered value is the adposition, or "with", a space and the
  capitalized name.
\<close>

definition adpOf :: "detail \<Rightarrow> string option" where
  "adpOf p =
     (let splitValue = split (CHR '' '') (detailValue p)
      in if length splitValue = 1 then None else Some (hd splitValue))"

definition nameOf :: "detail \<Rightarrow> string" where
  "nameOf p =
     (let splitValue = split (CHR '' '') (detailValue p)
      in if length splitValue = 1 then splitValue ! 0 else splitValue ! 1)"

definition properNameIndex :: "string \<Rightarrow> detail \<Rightarrow> int" where
  "properNameIndex text p = indexOf (toLowerCase text) (detailValue p)"

definition firstLetter :: "string \<Rightarrow> detail \<Rightarrow> char option" where
  "firstLetter text p =
     at text (case adpOf p of None \<Rightarrow> properNameIndex text p
              | Some a \<Rightarrow> properNameIndex text p + int (length a) + 1)"

definition survivors :: "(char option \<Rightarrow> bool) \<Rightarrow> string \<Rightarrow> detail list \<Rightarrow> detail list" where
  "survivors isLower text properNames = filter (\<lambda>p. \<not> isLower (firstLetter text p)) properNames"

definition nameDistance :: "string \<Rightarrow> span \<Rightarrow> detail \<Rightarrow> int" where
  "nameDistance text selectedNoun p = \<bar>properNameIndex text p - spanIndex selectedNoun\<bar>"

definition nameSpan :: "string \<Rightarrow> detail \<Rightarrow> span" where
  "nameSpan text p =
     \<lparr>spanValue = nameOf p, spanIndex = properNameIndex text p, spanType = detailType p\<rparr>"

definition renderedName :: "detail \<Rightarrow> string" where
  "renderedName p =
     (case adpOf p of None \<Rightarrow> ''with'' | Some a \<Rightarrow> a) @ '' '' @ capitalize (nameOf p)"

definition resolvedName :: "string \<Rightarrow> detail \<Rightarrow> properName" where
  "resolvedName text p =
     \<lparr>spanValue = nameOf p, spanIndex = properNameIndex text p, spanType = detailType p,
      parsedValue = renderedName p\<rparr>"

text \<open>One step of the search over the survivors, and the person suffix of an event title.\<close>

definition closerName :: "string \<Rightarrow> span \<Rightarrow> span \<times> int \<Rightarrow> detail \<Rightarrow> span \<times> int" where
  "closerName text selectedNoun st p =
     (if nameDistance text selectedNoun p < snd st
      then (nameSpan text p, nameDistance text selectedNoun p) else st)"

definition personSuffix :: "properName option \<Rightarrow> string" where
  "personSuffix selectedName = (case selectedName of None \<Rightarrow> [] | Some p \<Rightarrow> '' '' @ parsedValue p)"

subsection \<open>The adjacency walk\<close>







subsection \<open>The loop of \<^verbatim>\<open>findAdjAttributes\<close> as list functions\<close>







subsection \<open>Date fragments\<close>

text \<open>The two categories of date fragments that \<^verbatim>\<open>cleanJunkDates\<close> tells apart.\<close>

definition isDateComponent :: "detail \<Rightarrow> bool" where
  "isDateComponent d \<longleftrightarrow> detailType d \<in> set dateComponentPatterns"

definition isTime :: "detail \<Rightarrow> bool" where
  "isTime d \<longleftrightarrow> detailType d \<in> set timePatterns"

subsection \<open>Stages of \<^verbatim>\<open>process\<close>\<close>

text \<open>
  The engine once \<^verbatim>\<open>process\<close> has passed the syntactic check (a not-ready engine never
  reaches it).
\<close>

definition afterSyntacticCheck :: "'w engine \<Rightarrow> 'w \<Rightarrow> 'w engine" where
  "afterSyntacticCheck eng w =
     (if ready eng then eng\<lparr>world := w, calls := calls eng @ [SyntacticCheck]\<rparr> else eng)"

text \<open>
  The text the taggers read, the date candidates of a sentence, and the condition under
  which \<^verbatim>\<open>process\<close> gets as far as the date parser: the engine is ready, the syntactic
  check did not answer a processed event, there is a date and an event noun was
  resolved.
\<close>

definition taggedText :: "sentence \<Rightarrow> string" where
  "taggedText s = toLowerCase (sentenceValue s)"

definition datesOf :: "('w, 'e) collaborators \<Rightarrow> sentence \<Rightarrow> detail list" where
  "datesOf c s = filterDates (mainCustomEntities c (taggedText s))"

definition reachesParser :: "('w, 'e) collaborators \<Rightarrow> sentence \<Rightarrow> 'w engine \<Rightarrow> bool" where
  "reachesParser c s eng \<longleftrightarrow>
     ready eng \<and> \<not> isProcessed c (fst (syntacticCheck c s (world eng))) \<and> datesOf c s \<noteq> [] \<and>
     selectEventNoun (mainCustomEntities c (taggedText s)) (docTokens c (taggedText s))
       (taggedText s) (filterEventNoun (mainCustomEntities c (taggedText s)))
       (indexOf (taggedText s) (detailValue (hd (datesOf c s)))) \<noteq> None"

section \<open>Example inputs\<close>

text \<open>
  Example collaborators: the event store is the number of events created, an event is
  its \<^verbatim>\<open>processed\<close> flag, both checks answer a fixed event, the taggers and the parser
  answer fixed results, and a character is lower-case when it is an ASCII lower-case
  letter.
\<close>

definition asciiLower :: "char option \<Rightarrow> bool" where
  "asciiLower ch = (case ch of None \<Rightarrow> False | Some x \<Rightarrow> x \<in> set lowerLetters)"

definition stubCollaborators ::
  "bool option \<Rightarrow> bool option \<Rightarrow> detail list \<Rightarrow> detail list \<Rightarrow> tokens \<Rightarrow> dateRange option \<Rightarrow>
   (nat, bool) collaborators" where
  "stubCollaborators syntactic semantic mainEntities secondaryEntities toks parsed =
     \<lparr>syntacticCheck = (\<lambda>s w. (syntactic, w)),
      semanticCheck = (\<lambda>s w. (semantic, w)),
      createNewEvent = (\<lambda>s w. (False, Suc w)),
      processed = (\<lambda>e. e),
      mainCustomEntities = (\<lambda>t. mainEntities),
      secondaryCustomEntities = (\<lambda>t. secondaryEntities),
      docTokens = (\<lambda>t. toks),
      dateParser = (\<lambda>t. parsed),
      isLowerCase = asciiLower\<rparr>"

definition plainSentence :: "string \<Rightarrow> sentence" where
  "plainSentence v = \<lparr>sentenceValue = v, startDate = None, endDate = None, eventNoun = None\<rparr>"

definition readyEngine :: "nat engine" where
  "readyEngine = \<lparr>ready = True, world = 0, calls = []\<rparr>"

text \<open>Sentences, with the tokens and the entities a tagger reports for them.\<close>

definition longSentence :: string where
  "longSentence = ''monday '' @ replicate 1000 (CHR ''x'') @ '' meeting''"

definition meetingNoun :: detail where
  "meetingNoun = \<lparr>detailValue = ''meeting'', detailType = ''eventNoun''\<rparr>"

definition twoNouns :: "detail list" where
  "twoNouns = [\<lparr>detailValue = ''lunch'', detailType = ''eventNoun''\<rparr>,
               \<lparr>detailValue = ''meeting'', detailType = ''eventNoun''\<rparr>]"

definition meetingAt :: "int \<Rightarrow> span" where
  "meetingAt i = \<lparr>spanValue = ''meeting'', spanIndex = i, spanType = ''eventNoun''\<rparr>"

definition roomTokens :: tokens where
  "roomTokens =
     [(''meeting'', ''NOUN''), (''room'', ''NOUN''), (''on'', ''ADP''), (''monday'', ''NOUN'')]"



definition boardTokens :: tokens where
  "boardTokens = [(''board'', ''NOUN''), (''meeting'', ''NOUN''), (''on'', ''ADP''),
     (''monday'', ''NOUN'')]"

definition meetingsTokens :: tokens where
  "meetingsTokens = [(''meetings'', ''NOUN''), ('':'', ''PUNCT''), (''board'', ''NOUN''),
     (''meeting'', ''NOUN''), (''on'', ''ADP''), (''monday'', ''NOUN'')]"

definition fridayTwice :: "detail list" where
  "fridayTwice = [\<lparr>detailValue = ''on friday'', detailType = ''date''\<rparr>,
                  \<lparr>detailValue = ''on friday'', detailType = ''date''\<rparr>,
                  \<lparr>detailValue = ''at 2'', detailType = ''exactTime''\<rparr>]"

definition dentistText :: string where
  "dentistText = ''remember to call the dentist on monday''"

definition dentistTokens :: tokens where
  "dentistTokens = [(''remember'', ''VERB''), (''to'', ''PART''), (''call'', ''VERB''),
     (''the'', ''DET''), (''dentist'', ''NOUN''), (''on'', ''ADP''), (''monday'', ''NOUN'')]"

definition dentistEntities :: "detail list" where
  "dentistEntities = [\<lparr>detailValue = ''call the dentist'', detailType = ''intentionalVerb''\<rparr>,
                      \<lparr>detailValue = ''on monday'', detailType = ''date''\<rparr>]"

definition callTokens :: tokens where
  "callTokens = [(''call'', ''VERB''), (''the'', ''DET''), (''dentist'', ''NOUN''),
     (''on'', ''ADP''), (''monday'', ''NOUN'')]"

definition mondayOnly :: "detail list" where
  "mondayOnly = [\<lparr>detailValue = ''on monday'', detailType = ''date''\<rparr>]"

definition blursdayEntities :: "detail list" where
  "blursdayEntities = [\<lparr>detailValue = ''meeting'', detailType = ''eventNoun''\<rparr>,
                       \<lparr>detailValue = ''on blursday'', detailType = ''date''\<rparr>]"

definition nameCandidate :: "string \<Rightarrow> detail" where
  "nameCandidate v = \<lparr>detailValue = v, detailType = ''properName''\<rparr>"

definition farName :: string where
  "farName = ''Meeting '' @ replicate 1000 (CHR ''x'') @ '' John''"

section \<open>Properties\<close>

text \<open>
  The equations of the two loops of \<^verbatim>\<open>findAdjAttributes\<close> are unfolded by hand, one
  iteration at a time.
\<close>

declare adjWalk.simps [simp del]
declare popTrailing.simps [simp del]

subsection \<open>Strings and arrays\<close>

lemma arrayIndexOfFrom_absent: "x \<notin> set xs \<Longrightarrow> arrayIndexOfFrom i xs x = - 1"
  by (induction xs arbitrary: i) auto

lemma arrayIndexOf_first_or_absent:
  "(xs \<noteq> [] \<and> hd xs = x) \<or> x \<notin> set xs \<Longrightarrow> arrayIndexOf xs x \<le> 0"
  by (cases xs) (auto simp: arrayIndexOf_def arrayIndexOfFrom_absent)

lemma arrayIndexOfFrom_range:
  "arrayIndexOfFrom j xs x = - 1 \<or>
   (j \<le> arrayIndexOfFrom j xs x \<and> arrayIndexOfFrom j xs x < j + int (length xs))"
proof (induction xs arbitrary: j)
  case Nil
  show ?case by simp
next
  case (Cons y ys)
  from Cons [of "j + 1"] show ?case by auto
qed


lemma arrayIndexOf_member: "arrayIndexOf xs x > - 1 \<longleftrightarrow> x \<in> set xs"
proof
  assume "arrayIndexOf xs x > - 1"
  then show "x \<in> set xs"
    using arrayIndexOfFrom_absent [of x xs 0] by (auto simp: arrayIndexOf_def)
next
  assume "x \<in> set xs"
  then have "arrayIndexOfFrom i xs x \<noteq> - 1 \<or> i < 0" for i
  proof (induction xs arbitrary: i)
    case Nil
    then show ?case by simp
  next
    case (Cons y ys)
    show ?case
    proof (cases "y = x")
      case True
      then show ?thesis by auto
    next
      case False
      with Cons.prems have "x \<in> set ys" by simp
      from Cons.IH [OF this, of "i + 1"] False show ?thesis by auto
    qed
  qed
  from this [of 0] arrayIndexOfFrom_range [of 0 xs x]
  show "arrayIndexOf xs x > - 1" by (auto simp: arrayIndexOf_def)
qed

text \<open>A search skips a run of one character that the searched string does not start with.\<close>

lemma indexOfFrom_replicate:
  assumes "d \<noteq> x"
  shows "indexOfFrom i (replicate n x @ rest) (d # ds) = indexOfFrom (i + int n) rest (d # ds)"
  using assms by (induction n arbitrary: i) (auto simp: algebra_simps)

subsection \<open>Closest-wins loops\<close>

lemma firstNearest_snoc_keep:
  assumes "firstNearest dist xs i" "dist (xs ! i) \<le> dist x"
  shows "firstNearest dist (xs @ [x]) i"
  using assms unfolding firstNearest_def
  by (auto simp: nth_append less_Suc_eq)

lemma firstNearest_snoc_new:
  assumes "\<forall>y\<in>set xs. dist x < dist y"
  shows "firstNearest dist (xs @ [x]) (length xs)"
  using assms unfolding firstNearest_def
  by (auto simp: nth_append less_Suc_eq intro: less_imp_le)

text \<open>
  Every search of the engine is the same loop: keep the candidate when its distance is
  strictly below the best so far, which starts at the bound \<open>b\<close>.  Either no candidate
  is below the bound and the initial state survives, or the state is the first nearest
  candidate.
\<close>

lemma closest_fold:
  assumes step: "\<And>s m x. step (s, m) x = (if dist x < m then (f x, dist x) else (s, m))"
  shows "((\<forall>x\<in>set xs. b \<le> dist x) \<and> foldl step (s0, b) xs = (s0, b)) \<or>
         (\<exists>i. firstNearest dist xs i \<and> dist (xs ! i) < b \<and>
              foldl step (s0, b) xs = (f (xs ! i), dist (xs ! i)))"
proof (induction xs rule: rev_induct)
  case Nil
  show ?case by simp
next
  case (snoc x xs)
  from snoc.IH show ?case
  proof
    assume a: "(\<forall>x\<in>set xs. b \<le> dist x) \<and> foldl step (s0, b) xs = (s0, b)"
    show ?thesis
    proof (cases "dist x < b")
      case True
      with a have "\<forall>y\<in>set xs. dist x < dist y" by auto
      then have "firstNearest dist (xs @ [x]) (length xs)" by (rule firstNearest_snoc_new)
      moreover have "foldl step (s0, b) (xs @ [x]) = (f x, dist x)"
        using a True by (simp add: step)
      ultimately show ?thesis using True by (intro disjI2 exI[of _ "length xs"]) simp
    next
      case False
      with a show ?thesis by (simp add: step)
    qed
  next
    assume "\<exists>i. firstNearest dist xs i \<and> dist (xs ! i) < b \<and>
              foldl step (s0, b) xs = (f (xs ! i), dist (xs ! i))"
    then obtain i where i: "firstNearest dist xs i" "dist (xs ! i) < b"
      "foldl step (s0, b) xs = (f (xs ! i), dist (xs ! i))" by blast
    have il: "i < length xs" using i(1) by (simp add: firstNearest_def)
    show ?thesis
    proof (cases "dist x < dist (xs ! i)")
      case True
      have "\<forall>y\<in>set xs. dist x < dist y"
      proof
        fix y assume "y \<in> set xs"
        then obtain j where "j < length xs" "xs ! j = y" by (auto simp: in_set_conv_nth)
        with i(1) have "dist (xs ! i) \<le> dist y" by (auto simp: firstNearest_def)
        with True show "dist x < dist y" by simp
      qed
      then have "firstNearest dist (xs @ [x]) (length xs)" by (rule firstNearest_snoc_new)
      moreover have "foldl step (s0, b) (xs @ [x]) = (f x, dist x)"
        using i(3) True by (simp add: step)
      moreover have "dist x < b" using True i(2) by simp
      ultimately show ?thesis by (intro disjI2 exI[of _ "length xs"]) simp
    next
      case False
      then have "firstNearest dist (xs @ [x]) i"
        using i(1) by (intro firstNearest_snoc_keep) auto
      moreover have "foldl step (s0, b) (xs @ [x]) = (f (xs ! i), dist (xs ! i))"
        using i(3) False by (simp add: step)
      ultimately show ?thesis using i(2) il by (intro disjI2 exI[of _ i]) (simp add: nth_append)
    qed
  qed
qed

subsection \<open>Event noun resolution\<close>

lemma eventNounStep_closest:
  "eventNounStep text d (s, m) n =
     (if nounDistance text d n < m then (nounSpan text n, nounDistance text d n) else (s, m))"
  by (simp add: eventNounStep_def nounDistance_def nounSpan_def Let_def)

lemma longSentence_monday: "indexOf longSentence ''monday'' = 0"
  by (simp add: longSentence_def indexOf_def)

lemma longSentence_meeting: "indexOf longSentence ''meeting'' = 1008"
  by (simp add: longSentence_def indexOf_def indexOfFrom_replicate)

text \<open>
  C2, as the code has it.  When some event-noun candidate lies less than 1000
  characters from the date anchor, \<^verbatim>\<open>findEventNoun\<close> returns the candidate whose first
  occurrence in the lower-cased sentence is nearest to the anchor (absolute difference
  of character offsets), the first one met winning ties.  When every candidate is 1000
  characters or more away, it returns the initial object, whose index is \<open>-1\<close>: no
  event noun is resolved.
\<close>

theorem findEventNoun_nearest:
  "(if \<exists>n\<in>set eventNouns. nounDistance text anchor n < 1000
    then \<exists>i. firstNearest (nounDistance text anchor) eventNouns i \<and>
             findEventNoun text eventNouns anchor = nounSpan text (eventNouns ! i)
    else findEventNoun text eventNouns anchor = noSpan)"
proof -
  let ?dist = "nounDistance text anchor"
  let ?run = "foldl (eventNounStep text anchor) (noSpan, 1000) eventNouns"
  have "((\<forall>n\<in>set eventNouns. 1000 \<le> ?dist n) \<and> ?run = (noSpan, 1000)) \<or>
        (\<exists>i. firstNearest ?dist eventNouns i \<and> ?dist (eventNouns ! i) < 1000 \<and>
             ?run = (nounSpan text (eventNouns ! i), ?dist (eventNouns ! i)))"
    by (rule closest_fold) (rule eventNounStep_closest)
  then show ?thesis
  proof
    assume far: "(\<forall>n\<in>set eventNouns. 1000 \<le> ?dist n) \<and> ?run = (noSpan, 1000)"
    then have "\<not> (\<exists>n\<in>set eventNouns. ?dist n < 1000)" by (auto simp: not_less)
    with far show ?thesis by (simp add: findEventNoun_def)
  next
    assume "\<exists>i. firstNearest ?dist eventNouns i \<and> ?dist (eventNouns ! i) < 1000 \<and>
             ?run = (nounSpan text (eventNouns ! i), ?dist (eventNouns ! i))"
    then obtain i where i: "firstNearest ?dist eventNouns i" "?dist (eventNouns ! i) < 1000"
      "?run = (nounSpan text (eventNouns ! i), ?dist (eventNouns ! i))" by blast
    from i(1) have "eventNouns ! i \<in> set eventNouns" by (simp add: firstNearest_def)
    with i(2) have "\<exists>n\<in>set eventNouns. ?dist n < 1000" by blast
    moreover have "findEventNoun text eventNouns anchor = nounSpan text (eventNouns ! i)"
      using i(3) by (simp add: findEventNoun_def)
    ultimately show ?thesis using i(1) by auto
  qed
qed

text \<open>
  In "lunch or board meeting on monday" the date starts at offset 26; "lunch" is 26
  characters away and "meeting" 11, so "meeting" at offset 15 is resolved.
\<close>

theorem findEventNoun_nearest_witness:
  "(\<exists>n\<in>set twoNouns. nounDistance ''lunch or board meeting on monday'' 26 n < 1000) \<and>
   (\<exists>i. firstNearest (nounDistance ''lunch or board meeting on monday'' 26) twoNouns i \<and>
         findEventNoun ''lunch or board meeting on monday'' twoNouns 26 =
           nounSpan ''lunch or board meeting on monday'' (twoNouns ! i)) \<and>
   findEventNoun ''lunch or board meeting on monday'' twoNouns 26 =
     \<lparr>spanValue = ''meeting'', spanIndex = 15, spanType = ''eventNoun''\<rparr>"
proof -
  have near: "\<exists>n\<in>set twoNouns. nounDistance ''lunch or board meeting on monday'' 26 n < 1000"
    by (simp add: twoNouns_def nounDistance_def indexOf_def)
  have run: "findEventNoun ''lunch or board meeting on monday'' twoNouns 26 =
     \<lparr>spanValue = ''meeting'', spanIndex = 15, spanType = ''eventNoun''\<rparr>"
    by (simp add: findEventNoun_def eventNounStep_def twoNouns_def noSpan_def indexOf_def)
  from near run findEventNoun_nearest [of twoNouns "''lunch or board meeting on monday''" 26]
  show ?thesis by simp
qed

text \<open>
  C2 as stated fails on a sentence of more than 1000 characters: the only candidate,
  "meeting", is 1008 characters from the date "monday", and the search returns the
  initial object instead of the candidate.
\<close>

theorem findEventNoun_cap_counterexample:
  "findEventNoun longSentence [meetingNoun] (indexOf longSentence ''monday'') = noSpan \<and>
   noSpan \<noteq> nounSpan longSentence meetingNoun"
  by (simp add: longSentence_monday longSentence_meeting findEventNoun_def eventNounStep_def
      meetingNoun_def noSpan_def nounSpan_def)

subsection \<open>Readiness and the syntactic short-circuit\<close>

lemma init_ready: "init (Some [''meeting'']) (Some [''john'']) (newEngine 0) = Inr readyEngine"
  by (simp add: init_def newEngine_def readyEngine_def)

text \<open>
  C9.  On an engine whose \<^verbatim>\<open>_ready\<close> flag is not set, as the constructor leaves it
  until \<^verbatim>\<open>init\<close> has completed, \<^verbatim>\<open>process\<close> returns \<^verbatim>\<open>null\<close> and leaves the sentence
  and the engine as they were: the list of collaborator calls is unchanged, so neither
  tagger nor the identity collaborator nor the date parser was called.
\<close>

theorem process_not_ready:
  "\<not> ready eng \<Longrightarrow> process c sentence0 eng = Inr (Null, sentence0, eng)"
  by (simp add: process_def)

theorem process_not_ready_witness:
  "\<not> ready (newEngine (0::nat)) \<and>
   process (stubCollaborators None None [] [] [] None) (plainSentence ''Board meeting on monday'')
     (newEngine 0) =
   Inr (Null, plainSentence ''Board meeting on monday'', newEngine 0) \<and>
   calls (newEngine (0::nat)) = []"
  using process_not_ready [of "newEngine (0::nat)" "stubCollaborators None None [] [] [] None"
      "plainSentence ''Board meeting on monday''"]
  by (simp add: newEngine_def)

lemma process_processed:
  assumes "syntacticCheck c s (world eng) = (Some e, w)" "processed c e"
  shows "process c s eng = Inr (Null, s, afterSyntacticCheck eng w)"
  using assms by (simp add: process_def afterSyntacticCheck_def isProcessed_def Let_def)

text \<open>
  C1.  When the syntactic check answers an event whose \<^verbatim>\<open>processed\<close> flag is set,
  \<^verbatim>\<open>process\<close> returns \<^verbatim>\<open>null\<close> with the sentence untouched, and the only collaborator
  call it made is that check: \<^verbatim>\<open>createNewEvent\<close> was not invoked.  A second call on the
  same sentence, the check again answering a processed event, returns \<^verbatim>\<open>null\<close> again,
  and the number of \<^verbatim>\<open>createNewEvent\<close> calls is still what it was before the first.
\<close>

theorem process_idempotent:
  "syntacticCheck c s (world eng) = (Some e1, w1) \<and> processed c e1 \<longrightarrow>
     process c s eng = Inr (Null, s, afterSyntacticCheck eng w1) \<and>
     count_list (calls (afterSyntacticCheck eng w1)) CreateNewEvent =
       count_list (calls eng) CreateNewEvent \<and>
     (syntacticCheck c s (world (afterSyntacticCheck eng w1)) = (Some e2, w2) \<and> processed c e2 \<longrightarrow>
        process c s (afterSyntacticCheck eng w1) =
          Inr (Null, s, afterSyntacticCheck (afterSyntacticCheck eng w1) w2) \<and>
        count_list (calls (afterSyntacticCheck (afterSyntacticCheck eng w1) w2)) CreateNewEvent =
          count_list (calls eng) CreateNewEvent)"
  by (auto simp: process_processed) (auto simp: afterSyntacticCheck_def)

theorem process_idempotent_witness:
  "syntacticCheck (stubCollaborators (Some True) None [] [] [] None)
     (plainSentence ''Board meeting on monday'') (world readyEngine) = (Some True, 0) \<and>
   processed (stubCollaborators (Some True) None [] [] [] None) True \<and>
   process (stubCollaborators (Some True) None [] [] [] None)
     (plainSentence ''Board meeting on monday'') readyEngine =
     Inr (Null, plainSentence ''Board meeting on monday'',
          \<lparr>ready = True, world = 0, calls = [SyntacticCheck]\<rparr>) \<and>
   process (stubCollaborators (Some True) None [] [] [] None)
     (plainSentence ''Board meeting on monday'')
     \<lparr>ready = True, world = 0, calls = [SyntacticCheck]\<rparr> =
     Inr (Null, plainSentence ''Board meeting on monday'',
          \<lparr>ready = True, world = 0, calls = [SyntacticCheck, SyntacticCheck]\<rparr>)"
  using process_idempotent [of "stubCollaborators (Some True) None [] [] [] None"
      "plainSentence ''Board meeting on monday''" readyEngine True 0 True 0]
  by (simp add: stubCollaborators_def readyEngine_def afterSyntacticCheck_def)

subsection \<open>The event noun as first token\<close>

text \<open>
  C10.  When the value of the resolved event noun is the first token, or is no token at
  all, \<^verbatim>\<open>findAdjAttributes\<close> returns \<^verbatim>\<open>null\<close> in both directions, the forward one
  included, and the event title is the event noun followed by the person suffix, if
  there is one.
\<close>

theorem findAdjAttributes_first_token:
  assumes "(tokens \<noteq> [] \<and> fst (hd tokens) = spanValue selectedNoun) \<or>
           spanValue selectedNoun \<notin> fst ` set tokens"
  shows "findAdjAttributes tokens selectedNoun selectedName nounIndex dateIndex True = None \<and>
         findAdjAttributes tokens selectedNoun selectedName nounIndex dateIndex False = None \<and>
         getEventTitle
           (findAdjAttributes tokens selectedNoun selectedName nounIndex dateIndex True)
           (findAdjAttributes tokens selectedNoun selectedName nounIndex dateIndex False)
           selectedNoun selectedName = spanValue selectedNoun @ personSuffix selectedName"
proof -
  from assms have "(map fst tokens \<noteq> [] \<and> hd (map fst tokens) = spanValue selectedNoun) \<or>
      spanValue selectedNoun \<notin> set (map fst tokens)"
    by (auto simp: hd_map)
  then have "arrayIndexOf (map fst tokens) (spanValue selectedNoun) \<le> 0"
    by (rule arrayIndexOf_first_or_absent)
  then have none: "findAdjAttributes tokens selectedNoun selectedName nounIndex dateIndex b = None"
    for b
    by (simp add: findAdjAttributes_def Let_def)
  show ?thesis
    by (simp add: none getEventTitle_def personSuffix_def split: option.splits)
qed

text \<open>
  "meeting room on monday": the noun "meeting" is the first token, and "room", a noun
  right after it, is not collected.
\<close>

theorem findAdjAttributes_first_token_witness:
  "roomTokens \<noteq> [] \<and> fst (hd roomTokens) = ''meeting'' \<and>
   findAdjAttributes roomTokens \<lparr>spanValue = ''meeting'', spanIndex = 0, spanType = ''eventNoun''\<rparr>
     None 0 16 False = None \<and>
   findAdjAttributes roomTokens \<lparr>spanValue = ''meeting'', spanIndex = 0, spanType = ''eventNoun''\<rparr>
     None 0 16 True = None \<and>
   getEventTitle
     (findAdjAttributes roomTokens \<lparr>spanValue = ''meeting'', spanIndex = 0, spanType = ''eventNoun''\<rparr>
        None 0 16 True)
     (findAdjAttributes roomTokens \<lparr>spanValue = ''meeting'', spanIndex = 0, spanType = ''eventNoun''\<rparr>
        None 0 16 False)
     \<lparr>spanValue = ''meeting'', spanIndex = 0, spanType = ''eventNoun''\<rparr> None = ''meeting''"
proof -
  have first: "(roomTokens \<noteq> [] \<and>
       fst (hd roomTokens) =
         spanValue \<lparr>spanValue = ''meeting'', spanIndex = 0, spanType = ''eventNoun''\<rparr>) \<or>
      spanValue \<lparr>spanValue = ''meeting'', spanIndex = 0, spanType = ''eventNoun''\<rparr>
        \<notin> fst ` set roomTokens"
    by (simp add: roomTokens_def)
  from findAdjAttributes_first_token [OF first, of None 0 16] show ?thesis
    by (simp add: roomTokens_def personSuffix_def getEventTitle_def)
qed

subsection \<open>Date cleanup\<close>

text \<open>
  \<^verbatim>\<open>cleanJunkDates\<close> is one filter.  When the values of the fragments are pairwise
  distinct it keeps, of an over-represented category, the first fragment only, with
  the fragments of the other category.
\<close>

lemma cleanJunkDates_filters:
  "cleanJunkDates dates =
     filter (\<lambda>d. (1 < length (filter isDateComponent dates) \<longrightarrow>
                  isTime d \<or> detailValue d = detailValue (hd (filter isDateComponent dates))) \<and>
                 (1 < length (filter isTime dates) \<longrightarrow>
                  isDateComponent d \<or> detailValue d = detailValue (hd (filter isTime dates))))
       dates"
proof -
  have dc: "(arrayIndexOf dateComponentPatterns (detailType d) > - 1) = isDateComponent d" for d
    by (simp add: arrayIndexOf_member isDateComponent_def)
  have tm: "(arrayIndexOf timePatterns (detailType d) > - 1) = isTime d" for d
    by (simp add: arrayIndexOf_member isTime_def)
  show ?thesis
    by (cases "1 < length (filter isDateComponent dates)";
        cases "1 < length (filter isTime dates)")
       (simp_all add: cleanJunkDates_def Let_def dc tm conj_commute)
qed

lemma cleanJunkDates_distinct:
  assumes "distinct (map detailValue dates)"
  shows "cleanJunkDates dates =
     filter (\<lambda>d. (1 < length (filter isDateComponent dates) \<longrightarrow>
                  isTime d \<or> d = hd (filter isDateComponent dates)) \<and>
                 (1 < length (filter isTime dates) \<longrightarrow>
                  isDateComponent d \<or> d = hd (filter isTime dates)))
       dates"
proof -
  have inj: "inj_on detailValue (set dates)"
    using assms by (simp add: distinct_map)
  have hd_in: "hd (filter P dates) \<in> set dates" if "Suc 0 < length (filter P dates)" for P
  proof -
    from that have "filter P dates \<noteq> []" by auto
    then have "hd (filter P dates) \<in> set (filter P dates)" by (rule hd_in_set)
    then show ?thesis by simp
  qed
  have same: "detailValue x = detailValue (hd (filter P dates)) \<longleftrightarrow> x = hd (filter P dates)"
    if "x \<in> set dates" "Suc 0 < length (filter P dates)" for x P
    using inj hd_in [OF that(2)] that(1) by (auto simp: inj_on_def)
  show ?thesis
    unfolding cleanJunkDates_filters
    by (rule filter_cong) (auto simp: same)
qed

text \<open>
  C4 at "lunch on friday and dinner on friday at 2": the tagger reports the date "on
  friday" twice.  \<^verbatim>\<open>cleanJunkDates\<close> keeps a date component when its value equals the
  value of the first one, so both survive: two date components, where the comment above
  the function and the claim allow one.
\<close>

theorem cleanJunkDates_same_value:
  "cleanJunkDates fridayTwice = fridayTwice \<and>
   length (filter isDateComponent (cleanJunkDates fridayTwice)) = 2"
  by (simp add: cleanJunkDates_def fridayTwice_def isDateComponent_def dateComponentPatterns_def
      timePatterns_def arrayIndexOf_def)

subsection \<open>The intentional-verb fallback\<close>

lemma intentionalVerbStep_closest:
  "intentionalVerbStep text d (s, m) v =
     (if nounDistance text d v < m then (nounSpan text v, nounDistance text d v) else (s, m))"
  by (simp add: intentionalVerbStep_def nounDistance_def nounSpan_def Let_def)

lemma selectEventNoun_fallback:
  "(if \<exists>v\<in>set (verbDetails mainEntities). nounDistance text anchor v < 1000
    then \<exists>i. firstNearest (nounDistance text anchor) (verbDetails mainEntities) i \<and>
             selectEventNoun mainEntities tokens text [] anchor =
               (if indexOf text (detailValue (verbDetails mainEntities ! i)) = - 1 then None
                else Some (derivedNoun tokens text (verbDetails mainEntities ! i)))
    else selectEventNoun mainEntities tokens text [] anchor = None)"
proof -
  let ?vs = "verbDetails mainEntities"
  let ?dist = "nounDistance text anchor"
  let ?run = "foldl (intentionalVerbStep text anchor) (noSpan, 1000) ?vs"
  have sel: "selectEventNoun mainEntities tokens text [] anchor =
      (if ?vs = [] \<or> spanIndex (fst ?run) = - 1 then None
       else Some \<lparr>spanValue = firstVerbToken tokens @ '' '' @ last (split (CHR '' '') (spanValue (fst ?run))),
                  spanIndex = indexOf text (firstVerbToken tokens @ '' '' @ last (split (CHR '' '') (spanValue (fst ?run)))),
                  spanType = ''eventNoun''\<rparr>)"
    by (simp add: selectEventNoun_def findEventNoun_def noSpan_def findIntentionalVerb_def
        verbDetails_def firstVerbToken_def Let_def)
  have "((\<forall>v\<in>set ?vs. 1000 \<le> ?dist v) \<and> ?run = (noSpan, 1000)) \<or>
        (\<exists>i. firstNearest ?dist ?vs i \<and> ?dist (?vs ! i) < 1000 \<and>
             ?run = (nounSpan text (?vs ! i), ?dist (?vs ! i)))"
    by (rule closest_fold) (rule intentionalVerbStep_closest)
  then show ?thesis
  proof
    assume far: "(\<forall>v\<in>set ?vs. 1000 \<le> ?dist v) \<and> ?run = (noSpan, 1000)"
    then have "\<not> (\<exists>v\<in>set ?vs. ?dist v < 1000)" by (auto simp: not_less)
    moreover have "selectEventNoun mainEntities tokens text [] anchor = None"
      using far by (simp add: sel noSpan_def)
    ultimately show ?thesis by simp
  next
    assume "\<exists>i. firstNearest ?dist ?vs i \<and> ?dist (?vs ! i) < 1000 \<and>
             ?run = (nounSpan text (?vs ! i), ?dist (?vs ! i))"
    then obtain i where i: "firstNearest ?dist ?vs i" "?dist (?vs ! i) < 1000"
      "?run = (nounSpan text (?vs ! i), ?dist (?vs ! i))" by blast
    from i(1) have mem: "?vs ! i \<in> set ?vs" by (simp add: firstNearest_def)
    then have ne: "?vs \<noteq> []" by auto
    from mem i(2) have "\<exists>v\<in>set ?vs. ?dist v < 1000" by blast
    moreover have "selectEventNoun mainEntities tokens text [] anchor =
               (if indexOf text (detailValue (?vs ! i)) = - 1 then None
                else Some (derivedNoun tokens text (?vs ! i)))"
      using ne by (simp add: sel i(3) nounSpan_def derivedNoun_def derivedPhrase_def)
    ultimately show ?thesis using i(1) by auto
  qed
qed

lemma process_no_event_noun:
  assumes "selectEventNoun (mainCustomEntities c (toLowerCase (sentenceValue s)))
             (docTokens c (toLowerCase (sentenceValue s))) (toLowerCase (sentenceValue s))
             (filterEventNoun (mainCustomEntities c (toLowerCase (sentenceValue s))))
             (indexOf (toLowerCase (sentenceValue s))
                (detailValue (hd (filterDates (mainCustomEntities c (toLowerCase (sentenceValue s))))))) = None"
  shows "\<exists>eng'. process c s eng = Inr (Null, s, eng')"
  using assms by (auto simp: process_def Let_def split: prod.splits)

text \<open>
  C6 at "remember to call the dentist on monday", with the intentional-verb match "call
  the dentist" and no event-noun candidate.  The fallback should derive "<verb of the
  match> <last word of the match>", that is "call dentist".  \<^verbatim>\<open>findIntentionalVerb\<close>
  takes the verb from \<^verbatim>\<open>tokenValue[pos.indexOf("VERB")]\<close> (lines 244-247), the first
  token of the whole sentence tagged \<^verbatim>\<open>VERB\<close>, so the derived phrase is "remember
  dentist"; line 128 then looks that phrase up in the text and records \<open>-1\<close>.
\<close>

theorem selectEventNoun_first_verb:
  "selectEventNoun dentistEntities dentistTokens dentistText [] (indexOf dentistText ''on monday'') =
     Some \<lparr>spanValue = ''remember dentist'', spanIndex = - 1, spanType = ''eventNoun''\<rparr>"
  by (simp add: selectEventNoun_def findEventNoun_def findIntentionalVerb_def intentionalVerbStep_def
      noSpan_def dentistEntities_def dentistTokens_def dentistText_def indexOf_def arrayIndexOf_def
      at_def template_def Let_def)

subsection \<open>The adjacency walk\<close>















text \<open>
  The offset that line 290 computes is not the position of the word.  In "board meeting
  on monday", noun "meeting" at offset 6, the date "on monday" at 14, the forward walk
  collects "on", which stands at the anchor's offset 14, records 9 for it (and 22 for
  "monday"), and returns both words.
\<close>

lemma findAdjAttributes_offset_drift:
  "indexOf ''board meeting on monday'' ''meeting'' = 6 \<and>
   indexOf ''board meeting on monday'' ''on'' = 14 \<and>
   indexOf ''board meeting on monday'' ''on monday'' = 14 \<and>
   findAdjAttributes boardTokens (meetingAt 6) None 6 14 False =
     Some [\<lparr>spanValue = ''on'', spanIndex = 9, spanType = ''ADP''\<rparr>,
           \<lparr>spanValue = ''monday'', spanIndex = 22, spanType = ''NOUN''\<rparr>]"
  by code_simp

subsection \<open>Person-name resolution\<close>

lemma properNameStep_uniform:
  assumes "adpOf p = a" "loopHasAdp st \<longrightarrow> a \<noteq> None"
  shows "properNameStep isLower text selectedNoun st p =
     Inr (st\<lparr>loopSelected := fst (if isLower (firstLetter text p)
                                     then (loopSelected st, loopDistance st)
                                     else closerName text selectedNoun
                                            (loopSelected st, loopDistance st) p),
             loopDistance := snd (if isLower (firstLetter text p)
                                     then (loopSelected st, loopDistance st)
                                     else closerName text selectedNoun
                                            (loopSelected st, loopDistance st) p),
             loopHasAdp := a \<noteq> None, loopAdp := a\<rparr>)"
proof (cases a)
  case None
  with assms have one: "length (split (CHR '' '') (detailValue p)) = 1" "\<not> loopHasAdp st"
    by (auto simp: adpOf_def Let_def split: if_splits)
  show ?thesis
    using None assms(1) one
    by (simp add: properNameStep_def Let_def firstLetter_def closerName_def nameDistance_def
        nameSpan_def nameOf_def properNameIndex_def)
next
  case (Some w)
  with assms have two: "length (split (CHR '' '') (detailValue p)) \<noteq> 1"
    "hd (split (CHR '' '') (detailValue p)) = w"
    by (auto simp: adpOf_def Let_def split: if_splits)
  show ?thesis
    using Some assms(1) two
    by (simp add: properNameStep_def Let_def firstLetter_def closerName_def nameDistance_def
        nameSpan_def nameOf_def properNameIndex_def)
qed


lemma forEachProperName_uniform:
  assumes "\<forall>p\<in>set ps. adpOf p = a" "loopHasAdp st \<longrightarrow> a \<noteq> None"
  shows "\<exists>st'. forEachProperName (properNameStep isLower text selectedNoun) st ps = Inr st' \<and>
           (loopSelected st', loopDistance st') =
             foldl (closerName text selectedNoun) (loopSelected st, loopDistance st)
               (survivors isLower text ps) \<and>
           (ps \<noteq> [] \<longrightarrow> loopHasAdp st' = (a \<noteq> None) \<and> loopAdp st' = a) \<and>
           (ps = [] \<longrightarrow> st' = st)"
  using assms
proof (induction ps arbitrary: st)
  case Nil
  show ?case by (simp add: survivors_def)
next
  case (Cons p ps)
  define r where "r = (if isLower (firstLetter text p) then (loopSelected st, loopDistance st)
                       else closerName text selectedNoun (loopSelected st, loopDistance st) p)"
  define st1 where "st1 = st\<lparr>loopSelected := fst r, loopDistance := snd r,
                             loopHasAdp := a \<noteq> None, loopAdp := a\<rparr>"
  have p: "adpOf p = a" using Cons.prems(1) by simp
  have step: "properNameStep isLower text selectedNoun st p = Inr st1"
    unfolding st1_def r_def by (rule properNameStep_uniform [OF p Cons.prems(2)])
  have inv1: "loopHasAdp st1 \<longrightarrow> a \<noteq> None" by (simp add: st1_def)
  have all: "\<forall>p\<in>set ps. adpOf p = a" using Cons.prems(1) by simp
  from Cons.IH [OF all inv1] obtain st' where st':
    "forEachProperName (properNameStep isLower text selectedNoun) st1 ps = Inr st'"
    "(loopSelected st', loopDistance st') =
       foldl (closerName text selectedNoun) (loopSelected st1, loopDistance st1)
         (survivors isLower text ps)"
    "ps \<noteq> [] \<longrightarrow> loopHasAdp st' = (a \<noteq> None) \<and> loopAdp st' = a"
    "ps = [] \<longrightarrow> st' = st1"
    by blast
  have run: "forEachProperName (properNameStep isLower text selectedNoun) st (p # ps) = Inr st'"
    by (simp add: step st'(1))
  have sel: "(loopSelected st1, loopDistance st1) = r" by (simp add: st1_def)
  have fold: "foldl (closerName text selectedNoun) (loopSelected st, loopDistance st)
                (survivors isLower text (p # ps)) =
              foldl (closerName text selectedNoun) r (survivors isLower text ps)"
    by (simp add: survivors_def r_def)
  have flags: "loopHasAdp st' = (a \<noteq> None) \<and> loopAdp st' = a"
    using st'(3,4) by (cases "ps = []") (auto simp: st1_def)
  show ?case
    using run st'(2) flags by (intro exI [of _ st']) (simp add: sel fold)
qed

lemma closerName_closest:
  "closerName text selectedNoun (s, m) p =
     (if nameDistance text selectedNoun p < m
      then (nameSpan text p, nameDistance text selectedNoun p) else (s, m))"
  by (simp add: closerName_def)

lemma findProperName_run:
  assumes "forEachProperName (properNameStep isLower text selectedNoun)
             \<lparr>loopSelected = noSpan, loopDistance = 1000, loopHasAdp = False, loopAdp = None\<rparr>
             properNames = Inr st"
  shows "findProperName isLower text properNames selectedNoun =
     (if spanIndex (loopSelected st) = - 1 then Inr None
      else Inr (Some \<lparr>spanValue = spanValue (loopSelected st),
                         spanIndex = spanIndex (loopSelected st),
                         spanType = spanType (loopSelected st),
                         parsedValue =
                           (if \<not> loopHasAdp st
                            then ''with '' @ capitalize (spanValue (loopSelected st))
                            else template (loopAdp st) @ '' '' @
                                 capitalize (spanValue (loopSelected st)))\<rparr>))"
  using assms by (simp add: findProperName_def Let_def)

lemma findProperName_uniform_total:
  assumes "\<forall>p\<in>set properNames. adpOf p = a"
  shows "\<exists>r. findProperName isLower text properNames selectedNoun = Inr r"
proof -
  let ?st0 = "\<lparr>loopSelected = noSpan, loopDistance = 1000, loopHasAdp = False, loopAdp = None\<rparr>"
  have "loopHasAdp ?st0 \<longrightarrow> a \<noteq> None" by simp
  from forEachProperName_uniform [OF assms this, of isLower "text" selectedNoun]
  obtain st' where "forEachProperName (properNameStep isLower text selectedNoun) ?st0 properNames = Inr st'"
    by blast
  then show ?thesis by (simp add: findProperName_run)
qed

text \<open>
  C5, as the code has it.  For a candidate list whose candidates all carry the same
  leading adposition, or all carry none: a candidate is rejected when its first letter
  in the original text, after the adposition, is lower-case; when some surviving
  candidate lies less than 1000 characters from the resolved event noun, the nearest
  one is chosen (the first one met winning ties) and, unless it does not occur in the
  text, is rendered "<adposition> <Capitalized name>", or "with <Capitalized name>"
  without an adposition; otherwise the person is \<^verbatim>\<open>null\<close>.
\<close>

theorem findProperName_uniform:
  assumes "\<forall>p\<in>set properNames. adpOf p = a"
  shows "(if \<exists>p\<in>set (survivors isLower text properNames). nameDistance text selectedNoun p < 1000
          then \<exists>i. firstNearest (nameDistance text selectedNoun)
                      (survivors isLower text properNames) i \<and>
                   findProperName isLower text properNames selectedNoun =
                     Inr (if properNameIndex text (survivors isLower text properNames ! i) = - 1
                          then None
                          else Some (resolvedName text (survivors isLower text properNames ! i)))
          else findProperName isLower text properNames selectedNoun = Inr None)"
proof -
  let ?st0 = "\<lparr>loopSelected = noSpan, loopDistance = 1000, loopHasAdp = False, loopAdp = None\<rparr>"
  let ?sv = "survivors isLower text properNames"
  let ?dist = "nameDistance text selectedNoun"
  let ?run = "foldl (closerName text selectedNoun) (noSpan, 1000) ?sv"
  have "loopHasAdp ?st0 \<longrightarrow> a \<noteq> None" by simp
  from forEachProperName_uniform [OF assms this, of isLower "text" selectedNoun]
  obtain st' where st':
    "forEachProperName (properNameStep isLower text selectedNoun) ?st0 properNames = Inr st'"
    "(loopSelected st', loopDistance st') = ?run"
    "properNames \<noteq> [] \<longrightarrow> loopHasAdp st' = (a \<noteq> None) \<and> loopAdp st' = a"
    by auto
  have "((\<forall>p\<in>set ?sv. 1000 \<le> ?dist p) \<and> ?run = (noSpan, 1000)) \<or>
        (\<exists>i. firstNearest ?dist ?sv i \<and> ?dist (?sv ! i) < 1000 \<and>
             ?run = (nameSpan text (?sv ! i), ?dist (?sv ! i)))"
    by (rule closest_fold) (rule closerName_closest)
  then show ?thesis
  proof
    assume far: "(\<forall>p\<in>set ?sv. 1000 \<le> ?dist p) \<and> ?run = (noSpan, 1000)"
    then have "\<not> (\<exists>p\<in>set ?sv. ?dist p < 1000)" by (auto simp: not_less)
    moreover have "loopSelected st' = noSpan" using st'(2) far by (metis fst_conv)
    then have "findProperName isLower text properNames selectedNoun = Inr None"
      by (simp add: findProperName_run [OF st'(1)] noSpan_def)
    ultimately show ?thesis by simp
  next
    assume "\<exists>i. firstNearest ?dist ?sv i \<and> ?dist (?sv ! i) < 1000 \<and>
             ?run = (nameSpan text (?sv ! i), ?dist (?sv ! i))"
    then obtain i where i: "firstNearest ?dist ?sv i" "?dist (?sv ! i) < 1000"
      "?run = (nameSpan text (?sv ! i), ?dist (?sv ! i))" by blast
    from i(1) have mem: "?sv ! i \<in> set ?sv" by (simp add: firstNearest_def)
    then have inp: "?sv ! i \<in> set properNames" by (simp add: survivors_def)
    then have ne: "properNames \<noteq> []" by auto
    have ai: "adpOf (?sv ! i) = a" using assms inp by blast
    have flags: "loopHasAdp st' = (a \<noteq> None)" "loopAdp st' = a" using st'(3) ne by auto
    have sel: "loopSelected st' = nameSpan text (?sv ! i)" using st'(2) i(3) by (metis fst_conv)
    have "findProperName isLower text properNames selectedNoun =
            Inr (if properNameIndex text (?sv ! i) = - 1 then None
                 else Some (resolvedName text (?sv ! i)))"
      by (cases a)
         (simp_all add: findProperName_run [OF st'(1)] sel flags nameSpan_def resolvedName_def
            renderedName_def ai template_def)
    moreover from mem i(2) have "\<exists>p\<in>set ?sv. ?dist p < 1000" by blast
    ultimately show ?thesis using i(1) by auto
  qed
qed

text \<open>
  The sentence of the spec's example, with the candidate "with john", resolves to "with
  John" at offset 14; the candidate "amber" of "amber meeting on monday" is rejected.
\<close>

theorem findProperName_uniform_witness:
  "adpOf (nameCandidate ''with john'') = Some ''with'' \<and>
   (\<exists>p\<in>set (survivors asciiLower ''Board meeting with John on March 3rd at 2pm''
               [nameCandidate ''with john'']).
      nameDistance ''Board meeting with John on March 3rd at 2pm'' (meetingAt 6) p < 1000) \<and>
   (\<exists>i. firstNearest (nameDistance ''Board meeting with John on March 3rd at 2pm'' (meetingAt 6))
          (survivors asciiLower ''Board meeting with John on March 3rd at 2pm''
             [nameCandidate ''with john'']) i) \<and>
   findProperName asciiLower ''Board meeting with John on March 3rd at 2pm''
     [nameCandidate ''with john''] (meetingAt 6) =
     Inr (Some \<lparr>spanValue = ''john'', spanIndex = 14, spanType = ''properName'',
                 parsedValue = ''with John''\<rparr>) \<and>
   adpOf (nameCandidate ''amber'') = None \<and>
   survivors asciiLower ''amber meeting on monday'' [nameCandidate ''amber''] = [] \<and>
   findProperName asciiLower ''amber meeting on monday'' [nameCandidate ''amber''] (meetingAt 6) =
     Inr None"
proof -
  have u1: "\<forall>p\<in>set [nameCandidate ''with john'']. adpOf p = Some ''with''"
    by (simp add: nameCandidate_def adpOf_def)
  have u2: "\<forall>p\<in>set [nameCandidate ''amber'']. adpOf p = None"
    by (simp add: nameCandidate_def adpOf_def)
  have s1: "survivors asciiLower ''Board meeting with John on March 3rd at 2pm''
               [nameCandidate ''with john''] = [nameCandidate ''with john'']"
    by code_simp
  have d1: "nameDistance ''Board meeting with John on March 3rd at 2pm'' (meetingAt 6)
              (nameCandidate ''with john'') = 8"
    by code_simp
  have i1: "properNameIndex ''Board meeting with John on March 3rd at 2pm''
              (nameCandidate ''with john'') = 14"
    by code_simp
  have r1: "resolvedName ''Board meeting with John on March 3rd at 2pm''
              (nameCandidate ''with john'') =
            \<lparr>spanValue = ''john'', spanIndex = 14, spanType = ''properName'',
               parsedValue = ''with John''\<rparr>"
    by code_simp
  have s2: "survivors asciiLower ''amber meeting on monday'' [nameCandidate ''amber''] = []"
    by code_simp
  from findProperName_uniform [OF u1, of asciiLower "''Board meeting with John on March 3rd at 2pm''"
         "meetingAt 6"]
  have a: "\<exists>i. firstNearest (nameDistance ''Board meeting with John on March 3rd at 2pm'' (meetingAt 6))
          (survivors asciiLower ''Board meeting with John on March 3rd at 2pm''
             [nameCandidate ''with john'']) i \<and>
       findProperName asciiLower ''Board meeting with John on March 3rd at 2pm''
         [nameCandidate ''with john''] (meetingAt 6) =
       Inr (Some \<lparr>spanValue = ''john'', spanIndex = 14, spanType = ''properName'',
                 parsedValue = ''with John''\<rparr>)"
    by (simp add: s1 d1 i1 r1 firstNearest_def)
  from findProperName_uniform [OF u2, of asciiLower "''amber meeting on monday''" "meetingAt 6"]
  have b: "findProperName asciiLower ''amber meeting on monday'' [nameCandidate ''amber'']
             (meetingAt 6) = Inr None"
    by (simp add: s2)
  from a b u1 u2 s1 s2 d1 show ?thesis by auto
qed

lemma farName_lower: "toLowerCase farName = ''meeting '' @ replicate 1000 (CHR ''x'') @ '' john''"
  by (simp add: farName_def toLowerCase_def toLowerChar_def upperLetters_def lowerLetters_def)

lemma farName_john: "indexOf (toLowerCase farName) ''john'' = 1009"
  by (simp add: farName_lower indexOf_def indexOfFrom_replicate)

lemma farName_letter: "at farName 1009 = Some (CHR ''J'')"
  by (simp add: farName_def at_def nth_append)

lemma farName_far:
  "survivors asciiLower farName [nameCandidate ''john''] = [nameCandidate ''john''] \<and>
   findProperName asciiLower farName [nameCandidate ''john''] (meetingAt 0) = Inr None"
  by (simp add: survivors_def firstLetter_def adpOf_def properNameIndex_def nameCandidate_def
      farName_john farName_letter asciiLower_def lowerLetters_def findProperName_def
      properNameStep_def meetingAt_def noSpan_def Let_def)

lemma mixed_throws:
  "findProperName asciiLower ''Meeting with John and Mary on monday''
     [nameCandidate ''with john'', nameCandidate ''mary''] (meetingAt 0) = Inl TypeError"
  by code_simp

lemma wrong_adp:
  "findProperName asciiLower ''Call Mary on monday for John''
     [nameCandidate ''mary'', nameCandidate ''for john'']
     \<lparr>spanValue = ''call'', spanIndex = 0, spanType = ''eventNoun''\<rparr> =
     Inr (Some \<lparr>spanValue = ''mary'', spanIndex = 5, spanType = ''properName'',
                 parsedValue = ''for Mary''\<rparr>)"
  by code_simp

text \<open>
  C5 as stated fails in three ways.  A candidate without adposition after one with an
  adposition throws a \<^verbatim>\<open>TypeError\<close> (\<^verbatim>\<open>hasAdp\<close> is still set from the earlier
  candidate, \<^verbatim>\<open>adp\<close> is undefined).  A candidate without adposition is rendered with
  the adposition of a later candidate: "for Mary" in "Call Mary on monday for John".
  A surviving candidate 1000 characters or more from the event noun is not chosen.
\<close>

theorem findProperName_counterexample:
  "findProperName asciiLower ''Meeting with John and Mary on monday''
     [nameCandidate ''with john'', nameCandidate ''mary''] (meetingAt 0) = Inl TypeError \<and>
   findProperName asciiLower ''Call Mary on monday for John''
     [nameCandidate ''mary'', nameCandidate ''for john'']
     \<lparr>spanValue = ''call'', spanIndex = 0, spanType = ''eventNoun''\<rparr> =
     Inr (Some \<lparr>spanValue = ''mary'', spanIndex = 5, spanType = ''properName'',
                 parsedValue = ''for Mary''\<rparr>) \<and>
   survivors asciiLower farName [nameCandidate ''john''] = [nameCandidate ''john''] \<and>
   findProperName asciiLower farName [nameCandidate ''john''] (meetingAt 0) = Inr None"
  using mixed_throws wrong_adp farName_far by simp

subsection \<open>Negative results\<close>

lemma process_no_dates:
  assumes "datesOf c s = []"
  shows "\<exists>eng'. process c s eng = Inr (Null, s, eng')"
  using assms by (auto simp: process_def datesOf_def taggedText_def Let_def split: prod.splits)

lemma process_no_range:
  assumes parser: "parseDates (dateParser c) (cleanJunkDates (datesOf c s)) = None"
    and uniform: "\<forall>p\<in>set (filterProperNames (secondaryCustomEntities c (taggedText s))). adpOf p = a"
  shows "\<exists>eng'. process c s eng = Inr (if reachesParser c s eng then Undefined else Null, s, eng')"
proof (cases "reachesParser c s eng")
  case True
  obtain m w where sc: "syntacticCheck c s (world eng) = (m, w)" by (cases "syntacticCheck c s (world eng)")
  from True sc obtain n where n:
    "ready eng" "\<not> isProcessed c m" "datesOf c s \<noteq> []"
    "selectEventNoun (mainCustomEntities c (taggedText s)) (docTokens c (taggedText s))
       (taggedText s) (filterEventNoun (mainCustomEntities c (taggedText s)))
       (indexOf (taggedText s) (detailValue (hd (datesOf c s)))) = Some n"
    by (auto simp: reachesParser_def)
  from findProperName_uniform_total [OF uniform, of "isLowerCase c" "sentenceValue s" n]
  obtain r where r: "findProperName (isLowerCase c) (sentenceValue s)
      (filterProperNames (secondaryCustomEntities c (taggedText s))) n = Inr r" by blast
  show ?thesis
    using True sc n r parser
    by (simp add: process_def datesOf_def taggedText_def Let_def)
next
  case False
  then show ?thesis
    by (auto simp: process_def reachesParser_def datesOf_def taggedText_def Let_def
        split: prod.splits option.splits)
qed

text \<open>
  What holds of the negative results.  With no date candidate, \<^verbatim>\<open>process\<close> returns
  \<^verbatim>\<open>null\<close>.  With neither an event-noun nor an intentional-verb candidate, it returns
  \<^verbatim>\<open>null\<close>.  When the date parser yields no range for the cleaned dates, and the
  proper-name candidates all carry the same adposition or none, it returns without an
  exception: \<^verbatim>\<open>undefined\<close> (the bare \<^verbatim>\<open>return\<close> of line 148) when it got as far as the
  parser, \<^verbatim>\<open>null\<close> when an earlier exit applied.  In all three cases the sentence is
  left as it was.
\<close>

lemma process_no_evidence:
  "(datesOf c s = [] \<longrightarrow> (\<exists>eng'. process c s eng = Inr (Null, s, eng'))) \<and>
   (filterEventNoun (mainCustomEntities c (taggedText s)) = [] \<and>
    verbDetails (mainCustomEntities c (taggedText s)) = [] \<longrightarrow>
      (\<exists>eng'. process c s eng = Inr (Null, s, eng'))) \<and>
   (parseDates (dateParser c) (cleanJunkDates (datesOf c s)) = None \<and>
    (\<forall>p\<in>set (filterProperNames (secondaryCustomEntities c (taggedText s))). adpOf p = a) \<longrightarrow>
      (\<exists>eng'. process c s eng =
                Inr (if reachesParser c s eng then Undefined else Null, s, eng')))"
proof (intro conjI impI)
  assume "datesOf c s = []"
  then show "\<exists>eng'. process c s eng = Inr (Null, s, eng')" by (rule process_no_dates)
next
  let ?T = "toLowerCase (sentenceValue s)"
  assume "filterEventNoun (mainCustomEntities c (taggedText s)) = [] \<and>
    verbDetails (mainCustomEntities c (taggedText s)) = []"
  then have a: "filterEventNoun (mainCustomEntities c ?T) = []" "verbDetails (mainCustomEntities c ?T) = []"
    by (simp_all add: taggedText_def)
  have "selectEventNoun (mainCustomEntities c ?T) (docTokens c ?T) ?T []
          (indexOf ?T (detailValue (hd (filterDates (mainCustomEntities c ?T))))) = None"
    using selectEventNoun_fallback [of "mainCustomEntities c ?T" ?T
        "indexOf ?T (detailValue (hd (filterDates (mainCustomEntities c ?T))))" "docTokens c ?T"] a
    by simp
  with a show "\<exists>eng'. process c s eng = Inr (Null, s, eng')"
    by (intro process_no_event_noun) simp
next
  assume "parseDates (dateParser c) (cleanJunkDates (datesOf c s)) = None \<and>
    (\<forall>p\<in>set (filterProperNames (secondaryCustomEntities c (taggedText s))). adpOf p = a)"
  then show "\<exists>eng'. process c s eng =
                Inr (if reachesParser c s eng then Undefined else Null, s, eng')"
    by (intro process_no_range) auto
qed

text \<open>
  "Board meeting with John" without a date candidate and "remember to call the dentist
  on monday" with the date as only entity give \<^verbatim>\<open>null\<close>; "Call the dentist on monday"
  with a parser that finds no range gives \<^verbatim>\<open>undefined\<close>.
\<close>

lemma process_no_evidence_examples:
  "datesOf (stubCollaborators None None [] [] [] None) (plainSentence ''Board meeting with John'') = [] \<and>
   (\<exists>eng'. process (stubCollaborators None None [] [] [] None)
             (plainSentence ''Board meeting with John'') readyEngine =
           Inr (Null, plainSentence ''Board meeting with John'', eng')) \<and>
   filterEventNoun (mainCustomEntities (stubCollaborators None None mondayOnly [] dentistTokens None)
      (taggedText (plainSentence dentistText))) = [] \<and>
   verbDetails (mainCustomEntities (stubCollaborators None None mondayOnly [] dentistTokens None)
      (taggedText (plainSentence dentistText))) = [] \<and>
   (\<exists>eng'. process (stubCollaborators None None mondayOnly [] dentistTokens None)
             (plainSentence dentistText) readyEngine =
           Inr (Null, plainSentence dentistText, eng')) \<and>
   parseDates (dateParser (stubCollaborators None None dentistEntities [] callTokens None))
     (cleanJunkDates (datesOf (stubCollaborators None None dentistEntities [] callTokens None)
        (plainSentence ''Call the dentist on monday''))) = None \<and>
   filterProperNames
     (secondaryCustomEntities (stubCollaborators None None dentistEntities [] callTokens None)
        (taggedText (plainSentence ''Call the dentist on monday''))) = [] \<and>
   reachesParser (stubCollaborators None None dentistEntities [] callTokens None)
     (plainSentence ''Call the dentist on monday'') readyEngine \<and>
   (\<exists>eng'. process (stubCollaborators None None dentistEntities [] callTokens None)
             (plainSentence ''Call the dentist on monday'') readyEngine =
           Inr (Undefined, plainSentence ''Call the dentist on monday'', eng'))"
proof -
  have p1: "datesOf (stubCollaborators None None [] [] [] None)
              (plainSentence ''Board meeting with John'') = []"
    by (simp add: datesOf_def stubCollaborators_def filterDates_def)
  have p2: "filterEventNoun (mainCustomEntities (stubCollaborators None None mondayOnly [] dentistTokens None)
      (taggedText (plainSentence dentistText))) = [] \<and>
   verbDetails (mainCustomEntities (stubCollaborators None None mondayOnly [] dentistTokens None)
      (taggedText (plainSentence dentistText))) = []"
    by (simp add: stubCollaborators_def mondayOnly_def filterEventNoun_def verbDetails_def)
  have p3: "parseDates (dateParser (stubCollaborators None None dentistEntities [] callTokens None))
     (cleanJunkDates (datesOf (stubCollaborators None None dentistEntities [] callTokens None)
        (plainSentence ''Call the dentist on monday''))) = None \<and>
   (\<forall>p\<in>set (filterProperNames
        (secondaryCustomEntities (stubCollaborators None None dentistEntities [] callTokens None)
           (taggedText (plainSentence ''Call the dentist on monday'')))). adpOf p = None)"
    by (simp add: parseDates_def stubCollaborators_def filterProperNames_def)
  have p4: "reachesParser (stubCollaborators None None dentistEntities [] callTokens None)
     (plainSentence ''Call the dentist on monday'') readyEngine"
    by code_simp
  have p5: "filterProperNames
     (secondaryCustomEntities (stubCollaborators None None dentistEntities [] callTokens None)
        (taggedText (plainSentence ''Call the dentist on monday''))) = []"
    by (simp add: stubCollaborators_def filterProperNames_def)
  from p1 p2 p3 p4 p5
    process_no_evidence [of "stubCollaborators None None [] [] [] None"
      "plainSentence ''Board meeting with John''" readyEngine None]
    process_no_evidence [of "stubCollaborators None None mondayOnly [] dentistTokens None"
      "plainSentence dentistText" readyEngine None]
    process_no_evidence [of "stubCollaborators None None dentistEntities [] callTokens None"
      "plainSentence ''Call the dentist on monday''" readyEngine None]
  show ?thesis by simp
qed

text \<open>
  C8 at "Call the dentist on monday", ready engine, no matching event, the parser
  finding no range: \<^verbatim>\<open>process\<close> returns \<^verbatim>\<open>undefined\<close>, where the claim, the declared
  return type and every other exit say \<^verbatim>\<open>null\<close>.  At "Meeting with John and Mary on
  blursday", with the proper-name candidates "with john" and "mary", it throws a
  \<^verbatim>\<open>TypeError\<close> before the parser is asked.
\<close>

theorem process_no_range_undefined:
  "process (stubCollaborators None None dentistEntities [] callTokens None)
     (plainSentence ''Call the dentist on monday'') readyEngine =
   Inr (Undefined, plainSentence ''Call the dentist on monday'',
        \<lparr>ready = True, world = 0, calls = [SyntacticCheck, Tagging, DateParsing]\<rparr>) \<and>
   process (stubCollaborators None None blursdayEntities
              [nameCandidate ''with john'', nameCandidate ''mary''] [] None)
     (plainSentence ''Meeting with John and Mary on blursday'') readyEngine = Inl TypeError"
  by code_simp

subsection \<open>Offsets of the selection\<close>

text \<open>
  C7 at "Call the dentist on monday", ready engine, no matching event, the parser
  answering a range: the fallback derives "call dentist", which does not occur in the
  lower-cased text, so the returned selection holds a span whose index is \<open>-1\<close>.
\<close>

theorem process_fallback_index:
  "process (stubCollaborators None None dentistEntities [] callTokens
              (Some \<lparr>rangeStart = 0, rangeEnd = 3600\<rparr>))
     (plainSentence ''Call the dentist on monday'') readyEngine =
   Inr (Result
          [\<lparr>spanValue = ''call dentist'', spanIndex = - 1, spanType = ''eventNoun''\<rparr>,
           \<lparr>spanValue = ''on monday'', spanIndex = 17, spanType = ''date''\<rparr>]
          False,
        \<lparr>sentenceValue = ''Call the dentist on monday'', startDate = Some 0,
           endDate = Some 3600, eventNoun = Some ''call dentist''\<rparr>,
        \<lparr>ready = True, world = 1,
           calls = [SyntacticCheck, Tagging, DateParsing, SemanticCheck, CreateNewEvent]\<rparr>)"
  by code_simp

text \<open>
  The offsets of the adjacency walk can leave the text as well.  In "meetings: board
  meeting on monday" the value "meeting" first occurs at offset 0, inside "meetings",
  while the token "meeting" is the fourth; the backward walk gives "board" the offset
  \<open>-6\<close>.
\<close>

lemma findAdjAttributes_negative_offset:
  "indexOf ''meetings: board meeting on monday'' ''meeting'' = 0 \<and>
   findAdjAttributes meetingsTokens (meetingAt 0) None 0 24 True =
     Some [\<lparr>spanValue = ''board'', spanIndex = - 6, spanType = ''NOUN''\<rparr>]"
  by code_simp


end
